theory Spec2Isabelle
  imports Complex_Main "HOL-Library.Word"
begin

section \<open>Python values shared by the model\<close>

text \<open>
  Strings are \<open>char list\<close>. An Isabelle \<open>char\<close> is one of 256 code points; within that range
  the only characters matched by the regular expression class \<^verbatim>\<open>\d\<close>, and the only single
  characters accepted by \<^verbatim>\<open>int()\<close>, are \<^verbatim>\<open>0\<close> to \<^verbatim>\<open>9\<close>.
\<close>

datatype py_error = ValueError | IndexError | TypeError | OverflowError

definition is_digit :: "char \<Rightarrow> bool" where
  "is_digit c = (c \<in> set ''0123456789'')"

text \<open>\<^verbatim>\<open>re.sub(r'[^\d]', '', s)\<close>: every character that is not a digit is removed.\<close>

definition so_digitos :: "string \<Rightarrow> string" where
  "so_digitos s = filter is_digit s"

text \<open>\<^verbatim>\<open>int(c)\<close> for a string of one character.\<close>

definition py_int_char :: "char \<Rightarrow> py_error + int" where
  "py_int_char c = (if is_digit c then Inr (int (of_char c) - 48) else Inl ValueError)"

text \<open>\<^verbatim>\<open>int(s[i])\<close>: IndexError out of range, ValueError on a character that is no digit.\<close>

definition py_int_at :: "string \<Rightarrow> nat \<Rightarrow> py_error + int" where
  "py_int_at s i = (if i < length s then py_int_char (s ! i) else Inl IndexError)"

text \<open>
  \<^verbatim>\<open>s.replace(old, new)\<close> for a non-empty \<open>old\<close>: the occurrences of \<open>old\<close> are replaced from
  left to right, without overlap.
\<close>

fun py_replace :: "string \<Rightarrow> string \<Rightarrow> string \<Rightarrow> string" where
  "py_replace old new [] = []"
| "py_replace old new (c # rest) =
     (if old \<noteq> [] \<and> take (length old) (c # rest) = old
      then new @ py_replace old new (drop (length old) (c # rest))
      else c # py_replace old new rest)"

text \<open>\<^verbatim>\<open>sub in s\<close>: \<open>sub\<close> occurs in \<open>s\<close> as a contiguous substring.\<close>

fun contem :: "string \<Rightarrow> string \<Rightarrow> bool" where
  "contem sub [] = (sub = [])"
| "contem sub (c # rest) = (take (length sub) (c # rest) = sub \<or> contem sub rest)"

text \<open>
  \<^verbatim>\<open>s.lower()\<close> on the 256 code points of \<open>char\<close>: the letters A to Z and the capital letters
  of Latin-1 (192 to 222, without the multiplication sign 215) move up by 32.
\<close>

definition py_lower_char :: "char \<Rightarrow> char" where
  "py_lower_char c =
     (let n = (of_char c :: nat)
      in if (65 \<le> n \<and> n \<le> 90) \<or> (192 \<le> n \<and> n \<le> 222 \<and> n \<noteq> 215) then char_of (n + 32) else c)"

definition py_lower :: "string \<Rightarrow> string" where
  "py_lower s = map py_lower_char s"

text \<open>\<^verbatim>\<open>s.endswith(suffix)\<close>.\<close>

definition py_endswith :: "string \<Rightarrow> string \<Rightarrow> bool" where
  "py_endswith s suffix =
     (length suffix \<le> length s \<and> drop (length s - length suffix) s = suffix)"

text \<open>\<^verbatim>\<open>s.split(c)\<close> for a separator of one character; the result is never empty.\<close>

fun py_split :: "char \<Rightarrow> string \<Rightarrow> string list" where
  "py_split sep [] = [[]]"
| "py_split sep (c # rest) =
     (if c = sep then [] # py_split sep rest
      else (case py_split sep rest of
              [] \<Rightarrow> [[c]]
            | w # ws \<Rightarrow> (c # w) # ws))"

text \<open>
  \<^verbatim>\<open>c.isspace()\<close> on the 256 code points of \<open>char\<close> (tab, line feed, vertical tab, form
  feed, carriage return, the four separators 28 to 31, space, next line, no-break space),
  which is also what \<^verbatim>\<open>\s\<close> matches and what \<^verbatim>\<open>strip()\<close> removes.
\<close>

definition py_isspace :: "char \<Rightarrow> bool" where
  "py_isspace c = ((of_char c :: nat) \<in> set [9, 10, 11, 12, 13, 28, 29, 30, 31, 32, 133, 160])"

definition py_strip :: "string \<Rightarrow> string" where
  "py_strip s = rev (dropWhile py_isspace (rev (dropWhile py_isspace s)))"

text \<open>\<^verbatim>\<open>re.sub(r'\s+', ' ', s)\<close>: every run of white space becomes one space.\<close>

fun colapsar_aux :: "bool \<Rightarrow> string \<Rightarrow> string" where
  "colapsar_aux em_espaco [] = []"
| "colapsar_aux em_espaco (c # rest) =
     (if py_isspace c
      then (if em_espaco then colapsar_aux True rest else CHR '' '' # colapsar_aux True rest)
      else c # colapsar_aux False rest)"

definition colapsar_espacos :: "string \<Rightarrow> string" where
  "colapsar_espacos s = colapsar_aux False s"


section \<open>Numbers\<close>

text \<open>
  A Python \<open>float\<close> is a finite value, an infinity or a NaN. The finite values are modelled
  by the rationals: \<^verbatim>\<open>float(s)\<close> gives the exact value of the decimal numeral, where Python
  rounds it to the nearest double (and gives an infinity beyond the range of a double).
  Comparisons with NaN are false.
\<close>

datatype pyfloat = Fin rat | PosInf | NegInf | NaN

fun float_lt :: "pyfloat \<Rightarrow> pyfloat \<Rightarrow> bool" where
  "float_lt NaN y = False"
| "float_lt x NaN = False"
| "float_lt PosInf y = False"
| "float_lt x NegInf = False"
| "float_lt NegInf y = True"
| "float_lt x PosInf = True"
| "float_lt (Fin a) (Fin b) = (a < b)"

fun float_eq :: "pyfloat \<Rightarrow> pyfloat \<Rightarrow> bool" where
  "float_eq NaN y = False"
| "float_eq x NaN = False"
| "float_eq x y = (x = y)"

definition float_le :: "pyfloat \<Rightarrow> pyfloat \<Rightarrow> bool" where
  "float_le x y = (float_lt x y \<or> float_eq x y)"

definition float_gt :: "pyfloat \<Rightarrow> pyfloat \<Rightarrow> bool" where
  "float_gt x y = float_lt y x"

text \<open>
  The values that reach the numeric conversions: \<open>None\<close>, a string, an integer, a float, or
  an object of another type (for which \<^verbatim>\<open>float()\<close> raises TypeError).
\<close>

datatype pyval = PNone | PStr string | PInt int | PFloat pyfloat | PObj

text \<open>Truth value of a Python value (\<^verbatim>\<open>if v\<close>, \<^verbatim>\<open>not v\<close>).\<close>

fun py_truthy :: "pyval \<Rightarrow> bool" where
  "py_truthy PNone = False"
| "py_truthy (PStr s) = (s \<noteq> [])"
| "py_truthy (PInt n) = (n \<noteq> 0)"
| "py_truthy (PFloat f) = (f \<noteq> Fin 0)"
| "py_truthy PObj = True"

subsection \<open>\<^verbatim>\<open>float()\<close> of a string\<close>

text \<open>
  Underscores are allowed between two digits only; the scan of CPython keeps the previous
  character, which is NUL at the start.
\<close>

fun sublinhados_ok :: "char \<Rightarrow> string \<Rightarrow> bool" where
  "sublinhados_ok prev [] = (if prev = CHR ''_'' then False else True)"
| "sublinhados_ok prev (c # rest) =
     (if c = CHR ''_'' then (if is_digit prev then sublinhados_ok c rest else False)
      else if prev = CHR ''_'' then (if is_digit c then sublinhados_ok c rest else False)
      else sublinhados_ok c rest)"

fun valor_decimal :: "string \<Rightarrow> int" where
  "valor_decimal s = foldl (\<lambda>acc c. 10 * acc + (int (of_char c) - 48)) 0 s"

text \<open>An optional sign in front of a numeral: the factor and the rest.\<close>

fun ler_sinal :: "string \<Rightarrow> int \<times> string" where
  "ler_sinal [] = (1, [])"
| "ler_sinal (c # rest) =
     (if c = CHR ''-'' then (-1, rest) else if c = CHR ''+'' then (1, rest) else (1, c # rest))"

text \<open>
  The exponent part: empty, or \<^verbatim>\<open>e\<close> or \<^verbatim>\<open>E\<close>, an optional sign and at least one digit, up to
  the end of the string.
\<close>

definition ler_expoente :: "string \<Rightarrow> int option" where
  "ler_expoente s =
     (case s of
        [] \<Rightarrow> Some 0
      | c # rest \<Rightarrow>
          if c = CHR ''e'' \<or> c = CHR ''E''
          then (case ler_sinal rest of
                  (sinal, ds) \<Rightarrow>
                    if ds \<noteq> [] \<and> list_all is_digit ds then Some (sinal * valor_decimal ds) else None)
          else None)"

text \<open>
  An unsigned decimal numeral: digits, an optional point and digits, at least one digit
  before or after the point, and an optional exponent.
\<close>

definition ler_decimal :: "string \<Rightarrow> rat option" where
  "ler_decimal s =
     (let inteira = takeWhile is_digit s;
          r1 = dropWhile is_digit s;
          fracao = (case r1 of [] \<Rightarrow> [] | c # r \<Rightarrow> if c = CHR ''.'' then takeWhile is_digit r else []);
          r2 = (case r1 of [] \<Rightarrow> [] | c # r \<Rightarrow> if c = CHR ''.'' then dropWhile is_digit r else r1)
      in if inteira = [] \<and> fracao = [] then None
         else (case ler_expoente r2 of
                 None \<Rightarrow> None
               | Some e \<Rightarrow>
                   (let m = valor_decimal (inteira @ fracao);
                        ex = e - int (length fracao)
                    in Some (if 0 \<le> ex then of_int m * 10 ^ nat ex
                             else of_int m / 10 ^ nat (- ex)))))"

text \<open>
  \<^verbatim>\<open>float(s)\<close>: white space around the numeral is ignored (of the code points of \<open>char\<close>:
  9 to 13, 32, 133 and 160; the separators 28 to 31 are white space for \<^verbatim>\<open>strip()\<close> but not
  here), underscores are checked and removed, then comes an optional sign and \<^verbatim>\<open>inf\<close>,
  \<^verbatim>\<open>infinity\<close>, \<^verbatim>\<open>nan\<close> (in any case) or a decimal numeral. Anything else raises ValueError.
\<close>

definition float_isspace :: "char \<Rightarrow> bool" where
  "float_isspace c = ((of_char c :: nat) \<in> set [9, 10, 11, 12, 13, 32, 133, 160])"

definition py_float_str :: "string \<Rightarrow> py_error + pyfloat" where
  "py_float_str s =
     (let t = rev (dropWhile float_isspace (rev (dropWhile float_isspace s)))
      in if \<not> sublinhados_ok (CHR 0x00) t then Inl ValueError
         else (case ler_sinal (filter (\<lambda>c. c \<noteq> CHR ''_'') t) of
                 (sinal, u) \<Rightarrow>
                   if py_lower u = ''inf'' \<or> py_lower u = ''infinity''
                   then Inr (if sinal < 0 then NegInf else PosInf)
                   else if py_lower u = ''nan'' then Inr NaN
                   else (case ler_decimal u of
                           None \<Rightarrow> Inl ValueError
                         | Some q \<Rightarrow> Inr (Fin (of_int sinal * q)))))"

text \<open>
  \<^verbatim>\<open>float(v)\<close>. An integer too large for a double raises OverflowError: that is the case
  from \<open>2 ^ 1024 - 2 ^ 970\<close> on, where rounding to nearest leaves the range.
\<close>

definition py_float :: "pyval \<Rightarrow> py_error + pyfloat" where
  "py_float v =
     (case v of
        PNone \<Rightarrow> Inl TypeError
      | PStr s \<Rightarrow> py_float_str s
      | PInt n \<Rightarrow> if 2 ^ 1024 - 2 ^ 970 \<le> \<bar>n\<bar> then Inl OverflowError else Inr (Fin (of_int n))
      | PFloat f \<Rightarrow> Inr f
      | PObj \<Rightarrow> Inl TypeError)"

text \<open>Multiplication of floats: NaN is contagious, and zero times an infinity is NaN.\<close>

fun float_sinal :: "pyfloat \<Rightarrow> int" where
  "float_sinal (Fin a) = (if a < 0 then -1 else if a = 0 then 0 else 1)"
| "float_sinal PosInf = 1"
| "float_sinal NegInf = -1"
| "float_sinal NaN = 0"

definition float_mul :: "pyfloat \<Rightarrow> pyfloat \<Rightarrow> pyfloat" where
  "float_mul x y =
     (case (x, y) of
        (Fin a, Fin b) \<Rightarrow> Fin (a * b)
      | _ \<Rightarrow>
          if x = NaN \<or> y = NaN then NaN
          else if float_sinal x * float_sinal y = 0 then NaN
          else if float_sinal x * float_sinal y < 0 then NegInf
          else PosInf)"


section \<open>DataSanitizer\<close>

text \<open>
  \<^verbatim>\<open>sanitize_chave_acesso\<close>. The argument is \<open>None\<close> or a string; \<^verbatim>\<open>if not chave\<close> rejects
  \<open>None\<close> and the empty string. The marker \<^verbatim>\<open>NFe\<close> is removed, then every character that is
  not a digit, and exactly 44 digits must remain.
\<close>

definition sanitize_chave_acesso :: "string option \<Rightarrow> string option" where
  "sanitize_chave_acesso chave =
     (case chave of
        None \<Rightarrow> None
      | Some s \<Rightarrow>
          if s = [] then None
          else (let chave_clean = so_digitos (py_replace ''NFe'' [] s)
                in if length chave_clean \<noteq> 44 then None else Some chave_clean))"

text \<open>
  \<^verbatim>\<open>sanitize_cnpj\<close>: exactly 14 digits must remain, which are returned in the punctuated
  form \<^verbatim>\<open>NN.NNN.NNN/NNNN-NN\<close>.
\<close>

definition sanitize_cnpj :: "string option \<Rightarrow> string option" where
  "sanitize_cnpj cnpj =
     (case cnpj of
        None \<Rightarrow> None
      | Some s \<Rightarrow>
          if s = [] then None
          else (let cnpj_clean = so_digitos s
                in if length cnpj_clean \<noteq> 14 then None
                   else Some (take 2 cnpj_clean @ ''.'' @ take 3 (drop 2 cnpj_clean) @ ''.''
                              @ take 3 (drop 5 cnpj_clean) @ ''/'' @ take 4 (drop 8 cnpj_clean)
                              @ ''-'' @ take 2 (drop 12 cnpj_clean))))"

text \<open>
  \<^verbatim>\<open>sanitize_numeric_value\<close>. For a string, \<^verbatim>\<open>re.sub(r'[^\d.,\-]', '', value)\<close> keeps the digits,
  the point, the comma and the minus sign, every comma becomes a point, and the result goes
  to \<^verbatim>\<open>float()\<close>. The handler is \<^verbatim>\<open>except (ValueError, TypeError): return 0.0\<close>; any other
  exception leaves the function.
\<close>

definition caractere_numerico :: "char \<Rightarrow> bool" where
  "caractere_numerico c = (is_digit c \<or> c = CHR ''.'' \<or> c = CHR '','' \<or> c = CHR ''-'')"

definition sanitize_numeric_value :: "pyval \<Rightarrow> py_error + pyfloat" where
  "sanitize_numeric_value v =
     (case v of
        PNone \<Rightarrow> Inr (Fin 0)
      | _ \<Rightarrow>
        (case (case v of
                 PStr s \<Rightarrow>
                   (let value_clean = filter caractere_numerico s;
                        value_clean = py_replace '','' ''.'' value_clean
                    in py_float_str value_clean)
               | _ \<Rightarrow> py_float v) of
           Inr f \<Rightarrow> Inr f
         | Inl ValueError \<Rightarrow> Inr (Fin 0)
         | Inl TypeError \<Rightarrow> Inr (Fin 0)
         | Inl e \<Rightarrow> Inl e))"

text \<open>
  \<^verbatim>\<open>sanitize_string\<close>: the value is cut to \<open>max_length\<close> characters, control characters are
  removed, markup is removed by \<^verbatim>\<open>bleach.clean(value, tags=[], strip=True)\<close> (a function of
  the library \<open>bleach\<close>, here the parameter \<open>bleach_clean\<close>), runs of white space become one
  space and the ends are stripped.
\<close>

definition caractere_de_controle :: "char \<Rightarrow> bool" where
  "caractere_de_controle c =
     (let n = (of_char c :: nat)
      in n \<le> 8 \<or> n = 11 \<or> n = 12 \<or> (14 \<le> n \<and> n \<le> 31) \<or> n = 127)"

definition sanitize_string :: "(string \<Rightarrow> string) \<Rightarrow> string \<Rightarrow> nat \<Rightarrow> string" where
  "sanitize_string bleach_clean v max_length =
     (if v = [] then []
      else (let v1 = take max_length v;
                v2 = filter (\<lambda>c. \<not> caractere_de_controle c) v1;
                v3 = bleach_clean v2
            in py_strip (colapsar_espacos v3)))"

definition MAX_STRING_LENGTH :: nat where
  "MAX_STRING_LENGTH = 1000"


section \<open>The invoice record\<close>

text \<open>
  A \<open>datetime\<close> is a point on a line of microseconds. \<open>bytes\<close> are lists of 8-bit words, a
  decoded document is a list of Unicode code points.
\<close>

type_synonym datetime = int

type_synonym byte = "8 word"

type_synonym unicode = "nat list"

text \<open>
  An element of \<^verbatim>\<open>itens\<close> is a dictionary from field names to values (in the order of
  insertion), or some object that is not a dictionary.
\<close>

datatype pyitem = ItemDict "(string \<times> pyval) list" | ItemOutro

text \<open>
  The dataclass \<^verbatim>\<open>NotaFiscal\<close>. The extractors store \<open>None\<close> in \<^verbatim>\<open>data_emissao\<close>,
  \<^verbatim>\<open>cnpj_emitente\<close> and \<^verbatim>\<open>chave_acesso\<close> when the sanitizers fail, and the PDF extractor stores
  a string or the integer 0 in \<^verbatim>\<open>valor_total\<close>, so these fields are wider than their
  annotations.
\<close>

record NotaFiscal =
  numero :: string
  serie :: string
  data_emissao :: "datetime option"
  cnpj_emitente :: "string option"
  nome_emitente :: string
  valor_total :: pyval
  chave_acesso :: "string option"
  natureza_operacao :: string
  situacao :: string
  data_vencimento :: "datetime option"
  cnpj_destinatario :: "string option"
  nome_destinatario :: "string option"
  valor_icms :: pyval
  valor_ipi :: pyval
  valor_pis :: pyval
  valor_cofins :: pyval
  itens :: "pyitem list"
  xml_original :: "unicode option"
  processado_em :: datetime

text \<open>\<^verbatim>\<open>SecurityConfig.MAX_ITEMS_PER_NF\<close>.\<close>

definition MAX_ITEMS_PER_NF :: nat where
  "MAX_ITEMS_PER_NF = 1000"


section \<open>ValidadorNF: the issuer tax-id (CNPJ)\<close>

text \<open>
  The loop of \<^verbatim>\<open>_calcular_digito_cnpj\<close>:
  \<^verbatim>\<open>for i in range(n): soma += int(cnpj[i]) * peso; peso -= 1; if peso < 2: peso = 9\<close>
  over the list of indices, with \<open>soma\<close> and \<open>peso\<close> as the loop state.
\<close>

fun soma_pesos :: "string \<Rightarrow> nat list \<Rightarrow> int \<Rightarrow> int \<Rightarrow> py_error + int" where
  "soma_pesos cnpj [] soma peso = Inr soma"
| "soma_pesos cnpj (i # rest) soma peso =
     (case py_int_at cnpj i of
        Inl e \<Rightarrow> Inl e
      | Inr d \<Rightarrow> soma_pesos cnpj rest (soma + d * peso) (if peso - 1 < 2 then 9 else peso - 1))"

text \<open>
  \<^verbatim>\<open>_calcular_digito_cnpj\<close>; the \<^verbatim>\<open>except (ValueError, IndexError): return False\<close> is the
  \<open>Inl\<close> branch of every step.
\<close>

definition calcular_digito_cnpj :: "string \<Rightarrow> bool" where
  "calcular_digito_cnpj cnpj =
     (case soma_pesos cnpj [0..<12] 0 5 of
        Inl e \<Rightarrow> False
      | Inr soma1 \<Rightarrow>
          (let resto1 = soma1 mod 11;
               digito1 = (if resto1 < 2 then 0 else 11 - resto1)
           in case py_int_at cnpj 12 of
                Inl e \<Rightarrow> False
              | Inr c12 \<Rightarrow>
                  if c12 \<noteq> digito1 then False
                  else (case soma_pesos cnpj [0..<13] 0 6 of
                          Inl e \<Rightarrow> False
                        | Inr soma2 \<Rightarrow>
                            (let resto2 = soma2 mod 11;
                                 digito2 = (if resto2 < 2 then 0 else 11 - resto2)
                             in case py_int_at cnpj 13 of
                                  Inl e \<Rightarrow> False
                                | Inr c13 \<Rightarrow> c13 = digito2))))"

text \<open>
  \<^verbatim>\<open>_validar_cnpj\<close>. The argument is \<open>None\<close> or a string (\<^verbatim>\<open>if not cnpj\<close> rejects \<open>None\<close> and
  the empty string).
\<close>

definition validar_cnpj :: "string option \<Rightarrow> bool" where
  "validar_cnpj cnpj =
     (case cnpj of
        None \<Rightarrow> False
      | Some s \<Rightarrow>
          if s = [] then False
          else (let cnpj_numeros = so_digitos s
                in if length cnpj_numeros \<noteq> 14 then False
                   else if cnpj_numeros = replicate 14 (cnpj_numeros ! 0) then False
                   else calcular_digito_cnpj cnpj_numeros))"

subsection \<open>The check digits as the specification words them\<close>

text \<open>
  The standard weighted modulo-11 digit: the weights of the first check digit run from 5
  down to 2 and restart at 9, those of the second from 6 down to 2 and restart at 9; a
  remainder below 2 gives the digit 0, any other remainder \<open>r\<close> gives \<open>11 - r\<close>.
\<close>

definition pesos_dv1 :: "int list" where
  "pesos_dv1 = [5, 4, 3, 2, 9, 8, 7, 6, 5, 4, 3, 2]"

definition pesos_dv2 :: "int list" where
  "pesos_dv2 = [6, 5, 4, 3, 2, 9, 8, 7, 6, 5, 4, 3, 2]"

definition soma_ponderada :: "int list \<Rightarrow> int list \<Rightarrow> int" where
  "soma_ponderada ws ds = sum_list (map2 (*) ws ds)"

definition digito_mod11 :: "int \<Rightarrow> int" where
  "digito_mod11 soma = (let r = soma mod 11 in if r < 2 then 0 else 11 - r)"

definition valor_digito :: "char \<Rightarrow> int" where
  "valor_digito c = int (of_char c) - 48"

definition digitos_verificadores_ok :: "string \<Rightarrow> bool" where
  "digitos_verificadores_ok s =
     (let ds = map valor_digito s
      in ds ! 12 = digito_mod11 (soma_ponderada pesos_dv1 (take 12 ds)) \<and>
         ds ! 13 = digito_mod11 (soma_ponderada pesos_dv2 (take 13 ds)))"

section \<open>ValidadorNF: the remaining checks\<close>

text \<open>
  \<^verbatim>\<open>_validar_campos_obrigatorios\<close>: a field fails when it is \<open>None\<close>, empty, or white space
  only (\<^verbatim>\<open>not valor or (isinstance(valor, str) and not valor.strip())\<close>).
\<close>

definition campo_ausente :: "string option \<Rightarrow> bool" where
  "campo_ausente valor =
     (case valor of None \<Rightarrow> True | Some s \<Rightarrow> if s = [] then True else py_strip s = [])"

definition validar_campos_obrigatorios :: "NotaFiscal \<Rightarrow> bool" where
  "validar_campos_obrigatorios nota =
     (if list_ex campo_ausente
           [Some (numero nota), Some (serie nota), cnpj_emitente nota, chave_acesso nota,
            Some (nome_emitente nota), Some (natureza_operacao nota)]
      then False else True)"

text \<open>\<^verbatim>\<open>_validar_chave_acesso\<close>: 44 digits that are not all zero.\<close>

definition validar_chave_acesso :: "string option \<Rightarrow> bool" where
  "validar_chave_acesso chave =
     (case chave of
        None \<Rightarrow> False
      | Some s \<Rightarrow>
          if s = [] then False
          else (let chave_limpa = so_digitos (py_replace ''NFe'' [] s)
                in if length chave_limpa \<noteq> 44 then False
                   else if chave_limpa = replicate 44 (CHR ''0'') then False
                   else True))"

text \<open>
  The numeric tests of \<^verbatim>\<open>_validar_valores\<close> on a value: \<^verbatim>\<open>isinstance(v, (int, float))\<close>, and the
  comparisons of an integer or a float with a float constant.
\<close>

definition eh_numero :: "pyval \<Rightarrow> bool" where
  "eh_numero v = (case v of PInt n \<Rightarrow> True | PFloat f \<Rightarrow> True | _ \<Rightarrow> False)"

definition como_float :: "pyval \<Rightarrow> pyfloat" where
  "como_float v = (case v of PInt n \<Rightarrow> Fin (of_int n) | PFloat f \<Rightarrow> f | _ \<Rightarrow> NaN)"

definition VALOR_MAXIMO :: pyfloat where
  "VALOR_MAXIMO = Fin (99999999999 / 100)"

definition valor_opcional_invalido :: "pyval \<Rightarrow> bool" where
  "valor_opcional_invalido valor =
     (if valor = PNone then False
      else if \<not> eh_numero valor then True
      else float_lt (como_float valor) (Fin 0))"

text \<open>
  \<^verbatim>\<open>_validar_valores\<close>, with the invoice it leaves behind. A string in \<^verbatim>\<open>valor_total\<close> is replaced
  by \<^verbatim>\<open>float(nota.valor_total.replace(",", "."))\<close>; when that raises ValueError nothing is
  assigned and the handler returns \<open>False\<close>.
\<close>

definition validar_valores :: "NotaFiscal \<Rightarrow> bool \<times> NotaFiscal" where
  "validar_valores nota =
     (case (case valor_total nota of
              PStr s \<Rightarrow>
                (case py_float_str (py_replace '','' ''.'' s) of
                   Inl e \<Rightarrow> None
                 | Inr f \<Rightarrow> Some (nota\<lparr>valor_total := PFloat f\<rparr>))
            | _ \<Rightarrow> Some nota) of
        None \<Rightarrow> (False, nota)
      | Some nota1 \<Rightarrow>
          if \<not> eh_numero (valor_total nota1) then (False, nota1)
          else if float_le (como_float (valor_total nota1)) (Fin 0) then (False, nota1)
          else if float_gt (como_float (valor_total nota1)) VALOR_MAXIMO then (False, nota1)
          else if list_ex valor_opcional_invalido
                    [valor_icms nota1, valor_ipi nota1, valor_pis nota1, valor_cofins nota1]
          then (False, nota1)
          else (True, nota1))"

text \<open>
  \<^verbatim>\<open>_validar_data\<close>: the date must lie between 3650 days before and one day after the clock.
\<close>

definition dias :: "int \<Rightarrow> int" where
  "dias n = n * 86400 * 1000000"

definition validar_data :: "datetime \<Rightarrow> datetime option \<Rightarrow> bool" where
  "validar_data agora_dt data =
     (case data of
        None \<Rightarrow> False
      | Some d \<Rightarrow>
          if d < agora_dt - dias 3650 then False
          else if d > agora_dt + dias 1 then False
          else True)"

text \<open>
  \<^verbatim>\<open>_validar_itens\<close>. \<^verbatim>\<open>item.get(k, 0)\<close> is the value of the key or the integer 0. The handler
  inside the loop is \<^verbatim>\<open>except (ValueError, TypeError)\<close>, so an OverflowError of \<^verbatim>\<open>float()\<close>
  leaves the function.
\<close>

definition item_get :: "(string \<times> pyval) list \<Rightarrow> string \<Rightarrow> pyval \<Rightarrow> pyval" where
  "item_get d k padrao = (case map_of d k of None \<Rightarrow> padrao | Some v \<Rightarrow> v)"

definition validar_item :: "pyitem \<Rightarrow> py_error + bool" where
  "validar_item item =
     (case item of
        ItemOutro \<Rightarrow> Inr False
      | ItemDict d \<Rightarrow>
          if \<not> py_truthy (item_get d ''descricao'' PNone) then Inr False
          else if \<not> py_truthy (item_get d ''codigo'' PNone) then Inr False
          else (case py_float (item_get d ''quantidade'' (PInt 0)) of
                  Inl e \<Rightarrow> (if e = ValueError \<or> e = TypeError then Inr False else Inl e)
                | Inr quantidade \<Rightarrow>
               (case py_float (item_get d ''valor_unitario'' (PInt 0)) of
                  Inl e \<Rightarrow> (if e = ValueError \<or> e = TypeError then Inr False else Inl e)
                | Inr valor_unitario \<Rightarrow>
               (case py_float (item_get d ''valor_total'' (PInt 0)) of
                  Inl e \<Rightarrow> (if e = ValueError \<or> e = TypeError then Inr False else Inl e)
                | Inr valor_total_item \<Rightarrow>
                    if float_lt quantidade (Fin 0) then Inr False
                    else if float_lt valor_unitario (Fin 0) then Inr False
                    else if float_lt valor_total_item (Fin 0) then Inr False
                    else Inr True))))"

fun validar_cada_item :: "pyitem list \<Rightarrow> py_error + bool" where
  "validar_cada_item [] = Inr True"
| "validar_cada_item (item # rest) =
     (case validar_item item of
        Inl e \<Rightarrow> Inl e
      | Inr ok \<Rightarrow> if ok then validar_cada_item rest else Inr False)"

definition validar_itens :: "pyitem list \<Rightarrow> py_error + bool" where
  "validar_itens its =
     (if its = [] then Inr True
      else if length its > MAX_ITEMS_PER_NF then Inr False
      else validar_cada_item its)"

text \<open>
  The \<^verbatim>\<open>try\<close> block of \<^verbatim>\<open>validar_nota_fiscal\<close>: the checks in their order, each ending the
  validation with \<open>False\<close> when it fails. The result is what the block returns or raises,
  and the invoice as the block leaves it.
\<close>

definition validar_corpo :: "datetime \<Rightarrow> NotaFiscal \<Rightarrow> (py_error + bool) \<times> NotaFiscal" where
  "validar_corpo agora_dt nota =
     (if \<not> validar_campos_obrigatorios nota then (Inr False, nota)
      else if \<not> validar_cnpj (cnpj_emitente nota) then (Inr False, nota)
      else if \<not> validar_chave_acesso (chave_acesso nota) then (Inr False, nota)
      else (case validar_valores nota of
              (ok, nota1) \<Rightarrow>
                if \<not> ok then (Inr False, nota1)
                else if \<not> validar_data agora_dt (data_emissao nota1) then (Inr False, nota1)
                else if itens nota1 = [] then (Inr True, nota1)
                else (case validar_itens (itens nota1) of
                        Inl e \<Rightarrow> (Inl e, nota1)
                      | Inr oki \<Rightarrow> (Inr oki, nota1))))"

text \<open>
  \<^verbatim>\<open>validar_nota_fiscal\<close>: \<^verbatim>\<open>except Exception\<close> turns whatever the block raises into \<open>False\<close>.
  (A dataclass instance is always true, so \<^verbatim>\<open>if not nota\<close> only rejects \<open>None\<close>.)
\<close>

definition validar_nota_fiscal :: "datetime \<Rightarrow> NotaFiscal \<Rightarrow> bool \<times> NotaFiscal" where
  "validar_nota_fiscal agora_dt nota =
     (case validar_corpo agora_dt nota of
        (Inl e, nota1) \<Rightarrow> (False, nota1)
      | (Inr ok, nota1) \<Rightarrow> (ok, nota1))"


section \<open>XML documents\<close>

text \<open>
  An element of \<^verbatim>\<open>xml.etree.ElementTree\<close>: its tag (in the form \<^verbatim>\<open>{uri}local\<close> when it has a
  namespace), its attributes, its text and its child elements.
\<close>

datatype xml = Element (xml_tag: string) (xml_attrib: "(string \<times> string) list")
  (xml_text: "string option") (xml_children: "xml list")

text \<open>\<^verbatim>\<open>elem.iter()\<close>: the element and all its descendants in document order.\<close>

fun xml_iter :: "xml \<Rightarrow> xml list" where
  "xml_iter (Element t a x cs) = Element t a x cs # concat (map xml_iter cs)"

text \<open>
  \<^verbatim>\<open>elem.find('.//tag')\<close> and \<^verbatim>\<open>elem.findall('.//tag')\<close>: the first, or all, of the proper
  descendants of the element that have the tag, in document order.
\<close>

definition xml_descendentes :: "xml \<Rightarrow> xml list" where
  "xml_descendentes e = concat (map xml_iter (xml_children e))"

definition xml_find :: "string \<Rightarrow> xml \<Rightarrow> xml option" where
  "xml_find t e = List.find (\<lambda>x. xml_tag x = t) (xml_descendentes e)"

definition xml_findall :: "string \<Rightarrow> xml \<Rightarrow> xml list" where
  "xml_findall t e = filter (\<lambda>x. xml_tag x = t) (xml_descendentes e)"

text \<open>
  The prefix \<^verbatim>\<open>nfe\<close> of the dictionary \<^verbatim>\<open>ns\<close> stands for the namespace of the NF-e. With
  \<open>ns\<close> true the lookups are \<^verbatim>\<open>.//nfe:tag\<close>, with \<open>ns\<close> false (the empty dictionary) they are
  \<^verbatim>\<open>.//tag\<close>.
\<close>

definition NFE_NS :: string where
  "NFE_NS = ''http://www.portalfiscal.inf.br/nfe''"

definition nfe :: "string \<Rightarrow> string" where
  "nfe local = ''{'' @ NFE_NS @ ''}'' @ local"

definition buscar :: "bool \<Rightarrow> string \<Rightarrow> xml \<Rightarrow> xml option" where
  "buscar ns t e = xml_find (if ns then nfe t else t) e"

text \<open>The truth value of an element is that of its list of children.\<close>

definition elemento_verdadeiro :: "xml option \<Rightarrow> bool" where
  "elemento_verdadeiro e = (case e of None \<Rightarrow> False | Some x \<Rightarrow> xml_children x \<noteq> [])"

section \<open>Strict UTF-8 decoding\<close>

text \<open>
  \<^verbatim>\<open>xml_content.decode('utf-8', errors='strict')\<close>: the well-formed byte sequences of the
  Unicode standard, without overlong forms, surrogates or code points above 10FFFF.
  \<open>None\<close> is UnicodeDecodeError.
\<close>

definition continuacao :: "byte \<Rightarrow> bool" where
  "continuacao b = (0x80 \<le> b \<and> b \<le> 0xBF)"

definition segundo_byte_ok :: "byte \<Rightarrow> byte \<Rightarrow> bool" where
  "segundo_byte_ok b0 b1 =
     (if b0 = 0xE0 then 0xA0 \<le> b1 \<and> b1 \<le> 0xBF
      else if b0 = 0xED then 0x80 \<le> b1 \<and> b1 \<le> 0x9F
      else if b0 = 0xF0 then 0x90 \<le> b1 \<and> b1 \<le> 0xBF
      else if b0 = 0xF4 then 0x80 \<le> b1 \<and> b1 \<le> 0x8F
      else continuacao b1)"

fun utf8_decode :: "byte list \<Rightarrow> unicode option" where
  "utf8_decode [] = Some []"
| "utf8_decode (b0 # bs) =
     (if b0 < 0x80 then map_option (Cons (unat b0)) (utf8_decode bs)
      else if 0xC2 \<le> b0 \<and> b0 \<le> 0xDF then
        (case bs of
           b1 # r \<Rightarrow>
             if continuacao b1
             then map_option (Cons ((unat b0 - 0xC0) * 64 + (unat b1 - 0x80))) (utf8_decode r)
             else None
         | _ \<Rightarrow> None)
      else if 0xE0 \<le> b0 \<and> b0 \<le> 0xEF then
        (case bs of
           b1 # b2 # r \<Rightarrow>
             if segundo_byte_ok b0 b1 \<and> continuacao b2
             then map_option
                    (Cons ((unat b0 - 0xE0) * 4096 + (unat b1 - 0x80) * 64 + (unat b2 - 0x80)))
                    (utf8_decode r)
             else None
         | _ \<Rightarrow> None)
      else if 0xF0 \<le> b0 \<and> b0 \<le> 0xF4 then
        (case bs of
           b1 # b2 # b3 # r \<Rightarrow>
             if segundo_byte_ok b0 b1 \<and> continuacao b2 \<and> continuacao b3
             then map_option
                    (Cons ((unat b0 - 0xF0) * 262144 + (unat b1 - 0x80) * 4096
                           + (unat b2 - 0x80) * 64 + (unat b3 - 0x80)))
                    (utf8_decode r)
             else None
         | _ \<Rightarrow> None)
      else None)"

section \<open>XMLSecurityValidator\<close>

definition MAX_XML_SIZE :: nat where
  "MAX_XML_SIZE = 10 * 1024 * 1024"

definition validate_xml_size :: "byte list \<Rightarrow> bool" where
  "validate_xml_size xml_content = (if length xml_content > MAX_XML_SIZE then False else True)"

text \<open>
  \<^verbatim>\<open>_validate_xml_structure\<close>: the tag of the root without its namespace must be \<^verbatim>\<open>nfeProc\<close> or
  \<^verbatim>\<open>NFe\<close>, and the root must have a descendant \<^verbatim>\<open>infNFe\<close>, looked up with the namespace of
  the NF-e first and without a namespace after that.
\<close>

definition root_tag_local :: "string \<Rightarrow> string" where
  "root_tag_local t = (if CHR ''}'' \<in> set t then last (py_split (CHR ''}'') t) else t)"

definition validate_xml_structure :: "xml \<Rightarrow> bool" where
  "validate_xml_structure root_elem =
     (if root_tag_local (xml_tag root_elem) \<notin> set [''nfeProc'', ''NFe''] then False
      else (let inf_nfe = xml_find (nfe ''infNFe'') root_elem;
                inf_nfe = (if inf_nfe = None then xml_find ''infNFe'' root_elem else inf_nfe)
            in if inf_nfe = None then False else True))"

text \<open>
  The functions of libraries that the extractors call: the parser of \<open>defusedxml\<close> (\<open>None\<close>
  when it raises, for malformed or forbidden XML), \<open>bleach.clean\<close>,
  \<^verbatim>\<open>datetime.fromisoformat\<close> (\<open>None\<close> when it raises), decoding with replacement characters,
  and the clock; for the PDF extractor the text of all pages joined by line feeds, as
  \<open>pdfplumber\<close> extracts it (\<open>None\<close> when opening or reading the file raises),
  \<^verbatim>\<open>re.search(pattern, texto, re.IGNORECASE)\<close> for the patterns of the extractor that have a
  capture group (\<open>None\<close> without a match, otherwise group 1, which is \<open>None\<close> when the group took
  no part in the match), and \<^verbatim>\<open>datetime.strptime(s, '%d/%m/%Y')\<close> (\<open>None\<close> when it raises ValueError).
\<close>

datatype padrao =
    PadraoCNPJ | PadraoNumero | PadraoDataEmissao | PadraoSerie | PadraoNomeEmitente
  | PadraoValorTotal | PadraoChaveAcesso | PadraoNaturezaOperacao

record bibliotecas =
  et_fromstring :: "unicode \<Rightarrow> xml option"
  bleach_clean :: "string \<Rightarrow> string"
  fromisoformat :: "string \<Rightarrow> datetime option"
  decode_replace :: "byte list \<Rightarrow> unicode"
  agora :: datetime
  pdf_extract_text :: "byte list \<Rightarrow> string option"
  re_search :: "padrao \<Rightarrow> string \<Rightarrow> string option option"
  strptime :: "string \<Rightarrow> datetime option"

text \<open>
  What an extraction does besides computing its result: the records it sends to the
  security audit log (\<^verbatim>\<open>FILE_PROCESSING\<close> with its success flag), each decoding of the
  bytes, and each run of the XML parser.
\<close>

datatype evento = Auditoria string bool | Decodificacao | AnaliseXML

text \<open>
  \<^verbatim>\<open>parse_xml_safely\<close>: the size check comes first, then strict decoding, then the parser,
  then the check of the structure. Every exception ends in \<open>None\<close>.
\<close>

definition parse_xml_safely :: "bibliotecas \<Rightarrow> byte list \<Rightarrow> xml option \<times> evento list" where
  "parse_xml_safely libs xml_content =
     (if \<not> validate_xml_size xml_content then (None, [])
      else (case utf8_decode xml_content of
              None \<Rightarrow> (None, [Decodificacao])
            | Some xml_string \<Rightarrow>
                (case et_fromstring libs xml_string of
                   None \<Rightarrow> (None, [Decodificacao, AnaliseXML])
                 | Some root_elem \<Rightarrow>
                     if \<not> validate_xml_structure root_elem then (None, [Decodificacao, AnaliseXML])
                     else (Some root_elem, [Decodificacao, AnaliseXML]))))"


section \<open>XMLExtractor\<close>

text \<open>
  \<^verbatim>\<open>_get_text_safe\<close>: the text of the first descendant with the tag, or the empty string when
  the element is \<open>None\<close>, there is no such descendant, or its text is absent or empty.
\<close>

definition get_text_safe :: "xml option \<Rightarrow> string \<Rightarrow> bool \<Rightarrow> string" where
  "get_text_safe element t ns =
     (case element of
        None \<Rightarrow> []
      | Some e \<Rightarrow>
          (case buscar ns t e of
             None \<Rightarrow> []
           | Some node \<Rightarrow> (case xml_text node of None \<Rightarrow> [] | Some s \<Rightarrow> s)))"

text \<open>
  \<^verbatim>\<open>_parse_date_safe\<close>: the sanitized string up to the first \<^verbatim>\<open>T\<close> goes to
  \<^verbatim>\<open>datetime.fromisoformat\<close>; an exception gives \<open>None\<close>.
\<close>

definition parse_date_safe :: "bibliotecas \<Rightarrow> string \<Rightarrow> datetime option" where
  "parse_date_safe libs date_str =
     (if date_str = [] then None
      else (let date_clean = sanitize_string (bleach_clean libs) date_str MAX_STRING_LENGTH
            in fromisoformat libs (hd (py_split (CHR ''T'') date_clean))))"

text \<open>
  A numeric field of the document: \<^verbatim>\<open>sanitize_numeric_value\<close> of the text of a descendant.
  \<open>None\<close> stands for an exception that leaves \<^verbatim>\<open>sanitize_numeric_value\<close>.
\<close>

definition valor_numerico :: "xml \<Rightarrow> string \<Rightarrow> bool \<Rightarrow> pyfloat option" where
  "valor_numerico e t ns =
     (case sanitize_numeric_value (PStr (get_text_safe (Some e) t ns)) of
        Inl err \<Rightarrow> None
      | Inr f \<Rightarrow> Some f)"

definition texto_sanitizado :: "bibliotecas \<Rightarrow> xml option \<Rightarrow> string \<Rightarrow> bool \<Rightarrow> string" where
  "texto_sanitizado libs e t ns =
     sanitize_string (bleach_clean libs) (get_text_safe e t ns) MAX_STRING_LENGTH"

text \<open>
  The loop of \<^verbatim>\<open>_extrair_itens_seguros\<close> over the \<^verbatim>\<open>det\<close> elements: an element without
  \<^verbatim>\<open>prod\<close> is skipped, any other one gives a dictionary of six fields. \<open>None\<close> stands for
  an exception.
\<close>

fun itens_de :: "bibliotecas \<Rightarrow> bool \<Rightarrow> xml list \<Rightarrow> pyitem list option" where
  "itens_de libs ns [] = Some []"
| "itens_de libs ns (det # rest) =
     (case buscar ns ''prod'' det of
        None \<Rightarrow> itens_de libs ns rest
      | Some prod_el \<Rightarrow>
          (case (valor_numerico prod_el ''qCom'' ns, valor_numerico prod_el ''vUnCom'' ns,
                 valor_numerico prod_el ''vProd'' ns) of
             (Some q, Some vu, Some vt) \<Rightarrow>
               (case itens_de libs ns rest of
                  None \<Rightarrow> None
                | Some its \<Rightarrow>
                    Some (ItemDict
                            [(''codigo'', PStr (texto_sanitizado libs (Some prod_el) ''cProd'' ns)),
                             (''descricao'', PStr (texto_sanitizado libs (Some prod_el) ''xProd'' ns)),
                             (''ncm'', PStr (texto_sanitizado libs (Some prod_el) ''NCM'' ns)),
                             (''quantidade'', PFloat q),
                             (''valor_unitario'', PFloat vu),
                             (''valor_total'', PFloat vt)] # its))
           | _ \<Rightarrow> None))"

text \<open>
  \<^verbatim>\<open>_extrair_itens_seguros\<close>: at most \<^verbatim>\<open>MAX_ITEMS_PER_NF\<close> of the \<^verbatim>\<open>det\<close> elements are read;
  an exception gives the empty list.
\<close>

definition extrair_itens_seguros :: "bibliotecas \<Rightarrow> xml \<Rightarrow> bool \<Rightarrow> pyitem list" where
  "extrair_itens_seguros libs inf_nfe ns =
     (let det_elements = xml_findall (if ns then nfe ''det'' else ''det'') inf_nfe;
          det_elements = (if length det_elements > MAX_ITEMS_PER_NF
                          then take MAX_ITEMS_PER_NF det_elements else det_elements)
      in case itens_de libs ns det_elements of None \<Rightarrow> [] | Some its \<Rightarrow> its)"

text \<open>
  \<^verbatim>\<open>_extrair_dados_seguros\<close>. The element \<^verbatim>\<open>infNFe\<close> is looked up with the namespace first; when
  that fails it is looked up without, and all later lookups are without namespace. The
  test \<^verbatim>\<open>all([ide, emit, total])\<close> takes the truth value of the three elements, \<^verbatim>\<open>dest\<close> is
  only compared with \<open>None\<close>. Whatever is raised inside ends in \<open>None\<close>.
\<close>

definition extrair_dados_seguros :: "bibliotecas \<Rightarrow> xml \<Rightarrow> byte list \<Rightarrow> NotaFiscal option" where
  "extrair_dados_seguros libs root_elem xml_content =
     (let inf_nfe0 = xml_find (nfe ''infNFe'') root_elem;
          ns = (if inf_nfe0 = None then False else True);
          inf_nfe1 = (if inf_nfe0 = None then xml_find ''infNFe'' root_elem else inf_nfe0)
      in case inf_nfe1 of
           None \<Rightarrow> None
         | Some inf_nfe \<Rightarrow>
             (let ide = buscar ns ''ide'' inf_nfe;
                  emit = buscar ns ''emit'' inf_nfe;
                  dest = buscar ns ''dest'' inf_nfe;
                  total = buscar ns ''total'' inf_nfe
              in if \<not> list_all elemento_verdadeiro [ide, emit, total] then None
                 else (case total of
                         None \<Rightarrow> None
                       | Some total_el \<Rightarrow>
                  (case buscar ns ''ICMSTot'' total_el of
                     None \<Rightarrow> None
                   | Some icms_tot \<Rightarrow>
                       (case (valor_numerico icms_tot ''vNF'' ns, valor_numerico icms_tot ''vICMS'' ns,
                              valor_numerico icms_tot ''vIPI'' ns, valor_numerico icms_tot ''vPIS'' ns,
                              valor_numerico icms_tot ''vCOFINS'' ns) of
                          (Some v_nf, Some v_icms, Some v_ipi, Some v_pis, Some v_cofins) \<Rightarrow>
                            Some \<lparr> numero = texto_sanitizado libs ide ''nNF'' ns,
                                   serie = texto_sanitizado libs ide ''serie'' ns,
                                   data_emissao = parse_date_safe libs (get_text_safe ide ''dhEmi'' ns),
                                   cnpj_emitente = sanitize_cnpj (Some (get_text_safe emit ''CNPJ'' ns)),
                                   nome_emitente = texto_sanitizado libs emit ''xNome'' ns,
                                   valor_total = PFloat v_nf,
                                   chave_acesso =
                                     sanitize_chave_acesso
                                       (Some (py_replace ''NFe'' []
                                                (case map_of (xml_attrib inf_nfe) ''Id'' of
                                                   None \<Rightarrow> [] | Some v \<Rightarrow> v))),
                                   natureza_operacao = texto_sanitizado libs ide ''natOp'' ns,
                                   situacao = ''Pendente'',
                                   data_vencimento = None,
                                   cnpj_destinatario =
                                     (if dest \<noteq> None
                                      then sanitize_cnpj (Some (get_text_safe dest ''CNPJ'' ns))
                                      else None),
                                   nome_destinatario =
                                     (if dest \<noteq> None
                                      then Some (texto_sanitizado libs dest ''xNome'' ns)
                                      else None),
                                   valor_icms = PFloat v_icms,
                                   valor_ipi = PFloat v_ipi,
                                   valor_pis = PFloat v_pis,
                                   valor_cofins = PFloat v_cofins,
                                   itens = extrair_itens_seguros libs inf_nfe ns,
                                   xml_original = Some (take 10000 (decode_replace libs xml_content)),
                                   processado_em = agora libs \<rparr>
                        | _ \<Rightarrow> None)))))"

text \<open>
  \<^verbatim>\<open>extrair_dados_xml\<close>: a record \<^verbatim>\<open>FILE_PROCESSING\<close> with success flag \<open>False\<close> goes to the audit
  log before anything else, and one with flag \<open>True\<close> after a successful extraction. A
  successful \<^verbatim>\<open>_extrair_dados_seguros\<close> decodes the bytes once more, for \<^verbatim>\<open>xml_original\<close>; all its
  \<^verbatim>\<open>return None\<close> come before that.
\<close>

definition extrair_dados_xml ::
  "bibliotecas \<Rightarrow> byte list \<Rightarrow> string \<Rightarrow> NotaFiscal option \<times> evento list" where
  "extrair_dados_xml libs xml_content filename =
     (case parse_xml_safely libs xml_content of
        (None, evs) \<Rightarrow> (None, Auditoria ''FILE_PROCESSING'' False # evs)
      | (Some root_elem, evs) \<Rightarrow>
          (case extrair_dados_seguros libs root_elem xml_content of
             None \<Rightarrow> (None, Auditoria ''FILE_PROCESSING'' False # evs)
           | Some nota_fiscal \<Rightarrow>
               (Some nota_fiscal,
                Auditoria ''FILE_PROCESSING'' False # evs
                  @ [Decodificacao, Auditoria ''FILE_PROCESSING'' True])))"


section \<open>PDFExtractor\<close>

text \<open>
  The pattern of the operation nature, \<^verbatim>\<open>^natureza\s+(?:da|de\s+)?opera[c\<close>\<open>\<ccedilla>\<close>\<^verbatim>\<open>][a\<close>\<open>\<atilde>\<close>\<^verbatim>\<open>]o$\<close> with
  \<^verbatim>\<open>re.IGNORECASE\<close>, is modelled in full, since what the extractor does with it depends on
  whether it matches only: the whole text must be the word \<^verbatim>\<open>natureza\<close>, white space, then
  nothing or \<^verbatim>\<open>da\<close> or \<^verbatim>\<open>de\<close> with white space, then \<^verbatim>\<open>opera\<close>, a c with or without cedilla, an a
  with or without tilde, and \<^verbatim>\<open>o\<close>; the dollar sign also accepts one line feed at the end.
\<close>

definition casa_literal :: "string \<Rightarrow> string \<Rightarrow> string option" where
  "casa_literal lit s =
     (if length lit \<le> length s \<and> py_lower (take (length lit) s) = lit
      then Some (drop (length lit) s) else None)"

definition casa_espacos :: "string \<Rightarrow> string option" where
  "casa_espacos s =
     (case s of
        [] \<Rightarrow> None
      | c # rest \<Rightarrow> if py_isspace c then Some (dropWhile py_isspace rest) else None)"

definition casa_operacao_fim :: "string \<Rightarrow> bool" where
  "casa_operacao_fim s =
     (case casa_literal ''opera'' s of
        None \<Rightarrow> False
      | Some r \<Rightarrow>
          (case r of
             c1 # c2 # c3 # fim \<Rightarrow>
               py_lower_char c1 \<in> set [CHR ''c'', CHR 0xE7]
               \<and> py_lower_char c2 \<in> set [CHR ''a'', CHR 0xE3]
               \<and> py_lower_char c3 = CHR ''o''
               \<and> (fim = [] \<or> fim = [CHR 0x0A])
           | _ \<Rightarrow> False))"

definition natureza_casa :: "string \<Rightarrow> bool" where
  "natureza_casa texto =
     (case casa_literal ''natureza'' texto of
        None \<Rightarrow> False
      | Some r1 \<Rightarrow>
          (case casa_espacos r1 of
             None \<Rightarrow> False
           | Some r2 \<Rightarrow>
               casa_operacao_fim r2
               \<or> (case casa_literal ''da'' r2 of None \<Rightarrow> False | Some r3 \<Rightarrow> casa_operacao_fim r3)
               \<or> (case casa_literal ''de'' r2 of
                     None \<Rightarrow> False
                   | Some r3 \<Rightarrow>
                       (case casa_espacos r3 of None \<Rightarrow> False | Some r4 \<Rightarrow> casa_operacao_fim r4))))"

text \<open>
  The number of capture groups of each pattern. The pattern of the operation nature has
  none, the one of the issuer name has two, the others have one.
\<close>

definition grupos :: "padrao \<Rightarrow> nat" where
  "grupos p =
     (if p = PadraoNaturezaOperacao then 0 else if p = PadraoNomeEmitente then 2 else 1)"

text \<open>
  \<^verbatim>\<open>re.search(pattern, texto, re.IGNORECASE)\<close>: the library function for the seven patterns with
  groups, the matcher above for the pattern of the operation nature.
\<close>

definition pesquisar :: "bibliotecas \<Rightarrow> padrao \<Rightarrow> string \<Rightarrow> string option option" where
  "pesquisar libs p texto =
     (if p = PadraoNaturezaOperacao
      then (if natureza_casa texto then Some None else None)
      else re_search libs p texto)"

text \<open>
  \<^verbatim>\<open>extrair_valor(pattern, texto, default)\<close>: without a match the default; with a match
  \<^verbatim>\<open>match.group(1)\<close>, which raises IndexError for a pattern without groups, and the default
  when group 1 is \<open>None\<close>. Here the result is \<open>None\<close> where the default applies, and the caller
  puts the default of its field.
\<close>

definition extrair_valor :: "bibliotecas \<Rightarrow> padrao \<Rightarrow> string \<Rightarrow> py_error + string option" where
  "extrair_valor libs p texto =
     (case pesquisar libs p texto of
        None \<Rightarrow> Inr None
      | Some grupo \<Rightarrow> if grupos p = 0 then Inl IndexError else Inr grupo)"

definition com_padrao :: "py_error + string option \<Rightarrow> string \<Rightarrow> string" where
  "com_padrao v padrao_texto =
     (case v of
        Inl e \<Rightarrow> padrao_texto
      | Inr g \<Rightarrow> (case g of None \<Rightarrow> padrao_texto | Some s \<Rightarrow> s))"

text \<open>
  \<^verbatim>\<open>extrair_dados_pdf\<close>. The defaults are the literals of the source: the tax-id
  \<^verbatim>\<open>CNPJ 00.111.111/0001-11\<close>, the number \<^verbatim>\<open>N\<close>\<open>\<ordmasculine>\<close>\<^verbatim>\<open>: 0\<close>, the series, the issuer name, the
  integer \<open>0\<close> for the total value, an access key of 44 zeros in groups of four, and the
  operation nature \<^verbatim>\<open>SEM NATUREZA\<close>. The date is the clock when the pattern does not match or
  \<^verbatim>\<open>strptime\<close> fails. Everything happens inside \<^verbatim>\<open>try\<close>, and \<^verbatim>\<open>except Exception\<close> returns \<open>None\<close>:
  that is the case when reading the PDF raises and when one of the eight extractions
  raises.
\<close>

definition extrair_dados_pdf :: "bibliotecas \<Rightarrow> byte list \<Rightarrow> NotaFiscal option" where
  "extrair_dados_pdf libs pdf_bytes =
     (case pdf_extract_text libs pdf_bytes of
        None \<Rightarrow> None
      | Some texto_paginas \<Rightarrow>
          (let texto_completo = colapsar_espacos texto_paginas;
               r_cnpj = extrair_valor libs PadraoCNPJ texto_completo;
               r_numero = extrair_valor libs PadraoNumero texto_completo;
               r_data = extrair_valor libs PadraoDataEmissao texto_completo;
               r_serie = extrair_valor libs PadraoSerie texto_completo;
               r_nome = extrair_valor libs PadraoNomeEmitente texto_completo;
               r_valor = extrair_valor libs PadraoValorTotal texto_completo;
               r_chave = extrair_valor libs PadraoChaveAcesso texto_completo;
               r_natureza = extrair_valor libs PadraoNaturezaOperacao texto_completo
           in if list_ex isl [r_cnpj, r_numero, r_data, r_serie, r_nome, r_valor, r_chave, r_natureza]
              then None
              else
           (let cnpj_emitente_v = com_padrao r_cnpj ''CNPJ 00.111.111/0001-11'';
                numero_nf = com_padrao r_numero (''N'' @ [CHR 0xBA] @ '': 0'');
                data_emissao_v =
                  (case r_data of
                     Inr (Some s) \<Rightarrow>
                       if s = [] then agora libs
                       else (case strptime libs s of None \<Rightarrow> agora libs | Some d \<Rightarrow> d)
                   | _ \<Rightarrow> agora libs);
                serie_v = com_padrao r_serie (''S'' @ [CHR 0xC9] @ ''RIE 0'');
                nome_emitente_v = com_padrao r_nome (''EMITENTE N'' @ [CHR 0xC3] @ ''O ENCONTRADO'');
                valor_total_v = (case r_valor of Inr (Some g) \<Rightarrow> PStr g | _ \<Rightarrow> PInt 0);
                chave_acesso_v = com_padrao r_chave
                    ''0000 0000 0000 0000 0000 0000 0000 0000 0000 0000 0000'';
                natureza_operacao_v = com_padrao r_natureza ''SEM NATUREZA''
            in Some \<lparr> numero = numero_nf,
                       serie = serie_v,
                       data_emissao = Some data_emissao_v,
                       cnpj_emitente = Some cnpj_emitente_v,
                       nome_emitente = nome_emitente_v,
                       valor_total = valor_total_v,
                       chave_acesso = Some chave_acesso_v,
                       natureza_operacao = natureza_operacao_v,
                       situacao = ''Pendente'',
                       data_vencimento = None,
                       cnpj_destinatario = None,
                       nome_destinatario = None,
                       valor_icms = PFloat (Fin 0),
                       valor_ipi = PFloat (Fin 0),
                       valor_pis = PFloat (Fin 0),
                       valor_cofins = PFloat (Fin 0),
                       itens = [],
                       xml_original = None,
                       processado_em = agora libs \<rparr>)))"


section \<open>Dashboard: the entries of a ZIP bundle\<close>

text \<open>
  The two name tests of \<^verbatim>\<open>processar_zip_upload\<close>, on the lower-cased entry name:
  \<^verbatim>\<open>any(keyword in file_lower for keyword in ['cabecalho', 'header'])\<close> and
  \<^verbatim>\<open>any(keyword in file_lower for keyword in ['itens', 'items'])\<close>.
\<close>

definition nome_de_cabecalho :: "string \<Rightarrow> bool" where
  "nome_de_cabecalho file_name =
     (let file_lower = py_lower file_name
      in contem ''cabecalho'' file_lower \<or> contem ''header'' file_lower)"

definition nome_de_itens :: "string \<Rightarrow> bool" where
  "nome_de_itens file_name =
     (let file_lower = py_lower file_name
      in contem ''itens'' file_lower \<or> contem ''items'' file_lower)"

text \<open>
  The first loop over \<^verbatim>\<open>zip_ref.namelist()\<close>: directory entries are skipped, every other
  entry is appended to one of the three lists \<^verbatim>\<open>arquivos_cabecalho\<close>, \<^verbatim>\<open>arquivos_itens\<close>,
  \<^verbatim>\<open>outros_arquivos\<close>, the header test first (\<^verbatim>\<open>if\<close> / \<^verbatim>\<open>elif\<close> / \<^verbatim>\<open>else\<close>).
\<close>

fun separar_arquivos ::
  "string list \<Rightarrow> string list \<times> string list \<times> string list
     \<Rightarrow> string list \<times> string list \<times> string list" where
  "separar_arquivos [] listas = listas"
| "separar_arquivos (file_name # rest) (arquivos_cabecalho, arquivos_itens, outros_arquivos) =
     (if py_endswith file_name ''/''
      then separar_arquivos rest (arquivos_cabecalho, arquivos_itens, outros_arquivos)
      else if nome_de_cabecalho file_name
      then separar_arquivos rest (arquivos_cabecalho @ [file_name], arquivos_itens, outros_arquivos)
      else if nome_de_itens file_name
      then separar_arquivos rest (arquivos_cabecalho, arquivos_itens @ [file_name], outros_arquivos)
      else separar_arquivos rest (arquivos_cabecalho, arquivos_itens, outros_arquivos @ [file_name]))"

text \<open>\<^verbatim>\<open>arquivos_ordenados = arquivos_cabecalho + outros_arquivos + arquivos_itens\<close>.\<close>

definition arquivos_ordenados :: "string list \<Rightarrow> string list" where
  "arquivos_ordenados file_list =
     (case separar_arquivos file_list ([], [], []) of
        (arquivos_cabecalho, arquivos_itens, outros_arquivos) \<Rightarrow>
          arquivos_cabecalho @ outros_arquivos @ arquivos_itens)"

text \<open>\<^verbatim>\<open>file_name.lower().split('.')[-1]\<close> and the test against the supported types.\<close>

definition file_extension :: "string \<Rightarrow> string" where
  "file_extension file_name = last (py_split (CHR ''.'') (py_lower file_name))"

definition tipo_suportado :: "string \<Rightarrow> bool" where
  "tipo_suportado file_name = (file_extension file_name \<in> set [''pdf'', ''xml'', ''csv''])"

text \<open>
  The second loop, over \<^verbatim>\<open>arquivos_ordenados\<close>. An entry of an unsupported type only adds a
  line to the report (\<open>avisar\<close>); every other entry is read, handed to the extractor of its
  type and saved, all of which is the step \<open>processar\<close> on the state \<open>'st\<close> of the import
  (the persisted tables, the counters and the report); whatever that step raises is caught
  inside the loop and counted, so the loop always goes on to the next entry. The second
  component records the entries handed to \<open>processar\<close>, in the order in which this happens.
\<close>

fun processar_entradas ::
  "(string \<Rightarrow> 'st \<Rightarrow> 'st) \<Rightarrow> (string \<Rightarrow> 'st \<Rightarrow> 'st) \<Rightarrow> string list
     \<Rightarrow> 'st \<times> string list \<Rightarrow> 'st \<times> string list" where
  "processar_entradas processar avisar [] estado = estado"
| "processar_entradas processar avisar (file_name # rest) (st, ordem) =
     (if py_endswith file_name ''/''
      then processar_entradas processar avisar rest (st, ordem)
      else if \<not> tipo_suportado file_name
      then processar_entradas processar avisar rest (avisar file_name st, ordem)
      else processar_entradas processar avisar rest (processar file_name st, ordem @ [file_name]))"

definition processar_zip_upload ::
  "(string \<Rightarrow> 'st \<Rightarrow> 'st) \<Rightarrow> (string \<Rightarrow> 'st \<Rightarrow> 'st) \<Rightarrow> string list \<Rightarrow> 'st
     \<Rightarrow> 'st \<times> string list" where
  "processar_zip_upload processar avisar file_list st =
     processar_entradas processar avisar (arquivos_ordenados file_list) (st, [])"


section \<open>Dashboard: CSV files\<close>

text \<open>
  \<^verbatim>\<open>converter_valor_numerico\<close>, the helper of the items file. A cell that is missing (\<open>None\<close> or
  NaN, \<^verbatim>\<open>pd.isna\<close>) or the empty string gives 0.0. Otherwise the text of the cell (\<open>py_str\<close> is
  \<^verbatim>\<open>str()\<close> for the cells that are not strings) is stripped, everything but digits, comma,
  point and minus sign is removed; with both a comma and a point the points are removed
  and the commas become points, with a comma only the commas become points. The result
  goes to \<^verbatim>\<open>float()\<close>, and ValueError gives 0.0.
\<close>

definition converter_valor_numerico :: "(pyval \<Rightarrow> string) \<Rightarrow> pyval \<Rightarrow> pyfloat" where
  "converter_valor_numerico py_str valor =
     (if valor = PNone \<or> valor = PFloat NaN \<or> valor = PStr [] then Fin 0
      else (let valor_str = py_strip (case valor of PStr s \<Rightarrow> s | _ \<Rightarrow> py_str valor)
            in if valor_str = [] then Fin 0
               else (let valor_limpo = filter caractere_numerico valor_str;
                         valor_limpo =
                           (if CHR '','' \<in> set valor_limpo \<and> CHR ''.'' \<in> set valor_limpo
                            then py_replace '','' ''.'' (py_replace ''.'' [] valor_limpo)
                            else if CHR '','' \<in> set valor_limpo
                            then py_replace '','' ''.'' valor_limpo
                            else valor_limpo)
                     in case py_float_str valor_limpo of
                          Inl e \<Rightarrow> Fin 0
                        | Inr f \<Rightarrow> f)))"

text \<open>
  A \<^verbatim>\<open>DataFrame\<close>: the column labels and the rows, each row with one cell per column.
  \<^verbatim>\<open>df.empty\<close> holds when there are no rows or no columns.
\<close>

record dataframe =
  colunas :: "string list"
  linhas :: "pyval list list"

definition df_empty :: "dataframe \<Rightarrow> bool" where
  "df_empty df = (linhas df = [] \<or> colunas df = [])"

text \<open>\<^verbatim>\<open>row.get(label, default)\<close>: the cell under the label, or the default without such a column.\<close>

fun row_get :: "string list \<Rightarrow> pyval list \<Rightarrow> string \<Rightarrow> pyval \<Rightarrow> pyval" where
  "row_get [] cells label padrao = padrao"
| "row_get (c # cs) [] label padrao = padrao"
| "row_get (c # cs) (v # vs) label padrao =
     (if c = label then v else row_get cs vs label padrao)"

text \<open>
  The persisted tables as far as the CSV path reads and writes them: the id and the number
  of every persisted invoice, the persisted line items, and whether the database answers
  (every query raises when it does not).
\<close>

record item_data =
  item_nota_fiscal_id :: nat
  item_codigo :: string
  item_descricao :: string
  item_ncm :: string
  item_quantidade :: pyfloat
  item_valor_unitario :: pyfloat
  item_valor_total :: pyfloat

record banco =
  tabela_notas :: "(nat \<times> string) list"
  tabela_itens :: "item_data list"
  conexao_ok :: bool

text \<open>\<^verbatim>\<open>SELECT COUNT(*) FROM notas_fiscais\<close>; \<open>None\<close> when the query raises.\<close>

definition contar_notas :: "banco \<Rightarrow> nat option" where
  "contar_notas db = (if conexao_ok db then Some (length (tabela_notas db)) else None)"

text \<open>
  \<^verbatim>\<open>buscar_nota_fiscal_por_numero\<close>: the id of the first invoice with the number; \<open>None\<close> when
  there is none or the query raises.
\<close>

definition buscar_nota_fiscal_por_numero :: "banco \<Rightarrow> string \<Rightarrow> nat option" where
  "buscar_nota_fiscal_por_numero db num =
     (if conexao_ok db
      then map_option fst (List.find (\<lambda>linha. snd linha = num) (tabela_notas db))
      else None)"

text \<open>\<^verbatim>\<open>salvar_item_nota_fiscal\<close>: the row is inserted, or \<open>False\<close> when the statement raises.\<close>

definition salvar_item_nota_fiscal :: "banco \<Rightarrow> item_data \<Rightarrow> bool \<times> banco" where
  "salvar_item_nota_fiscal db item =
     (if conexao_ok db then (True, db\<lparr>tabela_itens := tabela_itens db @ [item]\<rparr>)
      else (False, db))"

text \<open>
  What the CSV path shows to the user (the calls of \<^verbatim>\<open>st.error\<close>, \<^verbatim>\<open>st.warning\<close>, \<^verbatim>\<open>st.info\<close> and
  \<^verbatim>\<open>st.success\<close>), one constructor per call site.
\<close>

datatype mensagem =
    ErroCSVNaoProcessavel string
  | InfoProcessandoCabecalho string
  | ErroBloqueado string
  | ErroMotivoSemNotas
  | ErroSolucaoCabecalhoPrimeiro
  | SucessoPreValidacao nat
  | InfoProcessandoItens string
  | ErroVerificarBanco
  | InfoProcessandoTradicional string
  | AvisoCamposFaltantes string "string list"
  | InfoColunasDisponiveis "string list"
  | InfoVerificacao nat
  | ErroNenhumaNota
  | ErroSolucaoOrdem
  | InfoDica
  | SucessoItens string nat
  | AvisoItensComErro string nat

definition eh_erro :: "mensagem \<Rightarrow> bool" where
  "eh_erro m =
     (case m of
        ErroCSVNaoProcessavel f \<Rightarrow> True
      | ErroBloqueado f \<Rightarrow> True
      | ErroMotivoSemNotas \<Rightarrow> True
      | ErroSolucaoCabecalhoPrimeiro \<Rightarrow> True
      | ErroVerificarBanco \<Rightarrow> True
      | ErroNenhumaNota \<Rightarrow> True
      | ErroSolucaoOrdem \<Rightarrow> True
      | _ \<Rightarrow> False)"

text \<open>
  The library functions of the CSV path: \<^verbatim>\<open>pd.read_csv\<close> for a text and a delimiter (\<open>None\<close>
  when it raises), the removal of accents by \<^verbatim>\<open>unicodedata\<close>, and \<^verbatim>\<open>str()\<close> of a cell that is
  not a string. The handlers of the header role and of the traditional role are not part
  of this model and enter as functions from the table and the file name to the invoices
  and the messages.
\<close>

record bibliotecas_csv =
  read_csv :: "unicode \<Rightarrow> char \<Rightarrow> dataframe option"
  sem_acentos :: "string \<Rightarrow> string"
  py_str :: "pyval \<Rightarrow> string"
  processar_csv_cabecalho :: "dataframe \<Rightarrow> string \<Rightarrow> NotaFiscal list \<times> mensagem list"
  processar_csv_tradicional :: "dataframe \<Rightarrow> string \<Rightarrow> NotaFiscal list \<times> mensagem list"

text \<open>
  \<^verbatim>\<open>normalizar_nome_coluna\<close>: accents are removed, the name is put in lower case, slash,
  hyphen, point and colon become spaces, runs of white space become one space, the ends are
  stripped and the spaces become underscores.
\<close>

definition normalizar_nome_coluna :: "bibliotecas_csv \<Rightarrow> string \<Rightarrow> string" where
  "normalizar_nome_coluna libs nome =
     (let n1 = py_lower (sem_acentos libs nome);
          n2 = map (\<lambda>c. if c \<in> set ''/-.:'' then CHR '' '' else c) n1;
          n3 = py_strip (colapsar_espacos n2)
      in map (\<lambda>c. if c = CHR '' '' then CHR ''_'' else c) n3)"

text \<open>The table of synonyms of \<^verbatim>\<open>_processar_csv_itens\<close>, in the order of the source.\<close>

definition sinonimos :: "(string \<times> string list) list" where
  "sinonimos =
     [(''numero_nf'', [''numero_nf'', ''numero'', ''nf_numero'', ''numero_nota_fiscal'', ''num_nf'',
                       ''numero_da_nota_fiscal'']),
      (''codigo_produto'', [''codigo_produto'', ''codigo'', ''cod_produto'', ''cprod'',
                            ''numero_produto'', ''num_produto'', ''codigo_item'',
                            ''codigo_do_produto'', ''numero_do_produto'']),
      (''descricao'', [''descricao'', ''descricao_produto'', ''xprod'', ''produto'',
                       ''descricao_do_produto'', ''descricao_do_item'', ''descricao_item'',
                       ''item_descricao'', ''descricao_prod'', ''descricao_do_produto_servico'',
                       ''descricao_produto_servico'', ''produto_servico'']),
      (''ncm'', [''ncm'', ''codigo_ncm'', ''codigo_ncm_sh'', ''codigo_ncmsh'', ''ncm_sh'', ''ncmsh'',
                 ''codigo_ncm_sh'']),
      (''quantidade'', [''quantidade'', ''qtd'', ''qtde'', ''qcom'', ''quantidade_item'']),
      (''valor_unitario'', [''valor_unitario'', ''vl_unitario'', ''preco_unitario'', ''vuncom'',
                            ''valor_unitario_item'', ''preco_unitario_item'']),
      (''valor_total'', [''valor_total'', ''vl_total'', ''total_item'', ''vprod'',
                         ''valor_total_item''])]"

text \<open>
  \<^verbatim>\<open>mapa_colunas_normalizadas\<close> (of two columns with the same normalized name the later one
  stays) and \<^verbatim>\<open>colunas_encontradas\<close> (for every field the column of its first alias that is
  a normalized column name).
\<close>

definition mapa_colunas_normalizadas :: "bibliotecas_csv \<Rightarrow> string list \<Rightarrow> string \<Rightarrow> string option" where
  "mapa_colunas_normalizadas libs cols =
     map_of (rev (map (\<lambda>c. (normalizar_nome_coluna libs c, c)) cols))"

definition primeira_coluna :: "(string \<Rightarrow> string option) \<Rightarrow> string list \<Rightarrow> string option" where
  "primeira_coluna mapa aliases =
     (case filter (\<lambda>a. mapa a \<noteq> None) aliases of [] \<Rightarrow> None | a # rest \<Rightarrow> mapa a)"

definition colunas_encontradas :: "bibliotecas_csv \<Rightarrow> string list \<Rightarrow> string \<Rightarrow> string option" where
  "colunas_encontradas libs cols campo =
     (case map_of sinonimos campo of
        None \<Rightarrow> None
      | Some aliases \<Rightarrow> primeira_coluna (mapa_colunas_normalizadas libs cols) aliases)"

definition texto_da_celula :: "bibliotecas_csv \<Rightarrow> pyval \<Rightarrow> string" where
  "texto_da_celula libs v = (case v of PStr s \<Rightarrow> s | _ \<Rightarrow> py_str libs v)"

text \<open>
  One turn of the loop over the rows, on the database and the two counters
  \<^verbatim>\<open>itens_processados\<close> and \<^verbatim>\<open>erros_processamento\<close>.
\<close>

definition processar_linha ::
  "bibliotecas_csv \<Rightarrow> string list \<Rightarrow> pyval list \<Rightarrow> banco \<times> nat \<times> nat \<Rightarrow> banco \<times> nat \<times> nat" where
  "processar_linha libs cols row estado =
     (case estado of
        (db, itens_processados, erros_processamento) \<Rightarrow>
     (let encontradas = colunas_encontradas libs cols;
          coluna = (\<lambda>campo. case encontradas campo of None \<Rightarrow> campo | Some c \<Rightarrow> c);
          numero_nf_raw = row_get cols row (coluna ''numero_nf'') (PStr [])
      in if numero_nf_raw = PNone \<or> numero_nf_raw = PFloat NaN \<or> numero_nf_raw = PStr []
         then (db, itens_processados, erros_processamento)
         else (let numero_nf = py_strip (texto_da_celula libs numero_nf_raw)
               in if numero_nf = [] then (db, itens_processados, erros_processamento)
                  else (case buscar_nota_fiscal_por_numero db numero_nf of
                          None \<Rightarrow> (db, itens_processados, erros_processamento + 1)
                        | Some nota_fiscal_id \<Rightarrow>
                  if nota_fiscal_id = 0 then (db, itens_processados, erros_processamento + 1)
                  else (let quantidade = converter_valor_numerico (py_str libs)
                                           (row_get cols row (coluna ''quantidade'') (PInt 0));
                            valor_unitario = converter_valor_numerico (py_str libs)
                                           (row_get cols row (coluna ''valor_unitario'') (PInt 0));
                            valor_total0 = converter_valor_numerico (py_str libs)
                                           (row_get cols row (coluna ''valor_total'') (PInt 0));
                            valor_total1 =
                              (if float_eq valor_total0 (Fin 0) \<and> float_gt quantidade (Fin 0)
                                  \<and> float_gt valor_unitario (Fin 0)
                               then float_mul quantidade valor_unitario else valor_total0);
                            codigo_produto = py_strip (texto_da_celula libs
                                               (row_get cols row (coluna ''codigo_produto'') (PStr [])));
                            descricao = py_strip (texto_da_celula libs
                                               (row_get cols row (coluna ''descricao'') (PStr [])))
                        in if codigo_produto = [] \<and> descricao = []
                           then (db, itens_processados, erros_processamento + 1)
                           else (case salvar_item_nota_fiscal db
                                   \<lparr> item_nota_fiscal_id = nota_fiscal_id,
                                     item_codigo = take 100 codigo_produto,
                                     item_descricao = take 1000 descricao,
                                     item_ncm = take 20 (texto_da_celula libs
                                                  (row_get cols row (coluna ''ncm'') (PStr []))),
                                     item_quantidade = quantidade,
                                     item_valor_unitario = valor_unitario,
                                     item_valor_total = valor_total1 \<rparr> of
                                   (salvo, db1) \<Rightarrow>
                                     if salvo then (db1, itens_processados + 1, erros_processamento)
                                     else (db1, itens_processados, erros_processamento + 1)))))))"

text \<open>
  \<^verbatim>\<open>_processar_csv_itens\<close>: without the three essential columns the file is refused; with no
  persisted invoice it is refused as well (when counting raises, the loop still runs);
  otherwise every row is processed. The result is always the empty list.
\<close>

definition processar_csv_itens ::
  "bibliotecas_csv \<Rightarrow> banco \<Rightarrow> dataframe \<Rightarrow> string
     \<Rightarrow> NotaFiscal list option \<times> mensagem list \<times> banco" where
  "processar_csv_itens libs db df filename =
     (let faltantes = filter (\<lambda>campo. colunas_encontradas libs (colunas df) campo = None)
                        [''numero_nf'', ''codigo_produto'', ''descricao'']
      in if faltantes \<noteq> []
         then (Some [], [AvisoCamposFaltantes filename faltantes, InfoColunasDisponiveis (colunas df)], db)
         else (let contagem = contar_notas db;
                   msgs0 = (case contagem of None \<Rightarrow> [] | Some total_notas \<Rightarrow> [InfoVerificacao total_notas])
               in if contagem = Some 0
                  then (Some [], msgs0 @ [ErroNenhumaNota, ErroSolucaoOrdem, InfoDica], db)
                  else (case fold (processar_linha libs (colunas df)) (linhas df) (db, 0, 0) of
                          (db1, itens_processados, erros_processamento) \<Rightarrow>
                            (Some [],
                             msgs0
                             @ (if itens_processados > 0 then [SucessoItens filename itens_processados] else [])
                             @ (if erros_processamento > 0 then [AvisoItensComErro filename erros_processamento] else []),
                             db1))))"

text \<open>
  The loop over the delimiters in \<^verbatim>\<open>processar_csv_upload\<close>: the last table that could be read
  stays in \<^verbatim>\<open>df\<close>, and the loop stops at the first table with more than one column.
\<close>

fun tentar_delimitadores ::
  "bibliotecas_csv \<Rightarrow> unicode \<Rightarrow> char list \<Rightarrow> dataframe option \<Rightarrow> dataframe option" where
  "tentar_delimitadores libs csv_text [] df = df"
| "tentar_delimitadores libs csv_text (delim # rest) df =
     (case read_csv libs csv_text delim of
        None \<Rightarrow> tentar_delimitadores libs csv_text rest df
      | Some df1 \<Rightarrow>
          if length (colunas df1) > 1 then Some df1
          else tentar_delimitadores libs csv_text rest (Some df1))"

text \<open>
  \<^verbatim>\<open>processar_csv_upload\<close>: the bytes are decoded as UTF-8 or else as Latin-1 (which accepts
  every byte), the table is read, an unreadable or empty table ends in \<open>None\<close>, and the role of
  the file follows from its lower-cased name, the header test first. For an items file
  the invoices are counted before anything else.
\<close>

definition processar_csv_upload ::
  "bibliotecas_csv \<Rightarrow> banco \<Rightarrow> byte list \<Rightarrow> string
     \<Rightarrow> NotaFiscal list option \<times> mensagem list \<times> banco" where
  "processar_csv_upload libs db file_content filename =
     (let csv_text = (case utf8_decode file_content of
                        Some t \<Rightarrow> t
                      | None \<Rightarrow> map unat file_content);
          df_lido = tentar_delimitadores libs csv_text
                      [CHR '';'', CHR '','', CHR 0x09, CHR ''|''] None
      in case df_lido of
           None \<Rightarrow> (None, [ErroCSVNaoProcessavel filename], db)
         | Some df \<Rightarrow>
             if df_empty df then (None, [ErroCSVNaoProcessavel filename], db)
             else (let filename_lower = py_lower filename
                   in if contem ''cabecalho'' filename_lower \<or> contem ''header'' filename_lower
                      then (case processar_csv_cabecalho libs df filename of
                              (notas, msgs) \<Rightarrow>
                                (Some notas, InfoProcessandoCabecalho filename # msgs, db))
                      else if contem ''itens'' filename_lower \<or> contem ''items'' filename_lower
                      then (case contar_notas db of
                              None \<Rightarrow> (Some [], [ErroVerificarBanco], db)
                            | Some total_notas \<Rightarrow>
                                if total_notas = 0
                                then (Some [],
                                      [ErroBloqueado filename, ErroMotivoSemNotas,
                                       ErroSolucaoCabecalhoPrimeiro], db)
                                else (case processar_csv_itens libs db df filename of
                                        (notas, msgs, db1) \<Rightarrow>
                                          (notas,
                                           [SucessoPreValidacao total_notas, InfoProcessandoItens filename]
                                           @ msgs, db1)))
                      else (case processar_csv_tradicional libs df filename of
                              (notas, msgs) \<Rightarrow>
                                (Some notas, InfoProcessandoTradicional filename # msgs, db))))"


section \<open>Concrete inputs\<close>

text \<open>
  Documents and library functions for the concrete runs below: a parser that knows the
  document \<^verbatim>\<open><NFe/>\<close> (given by its code points), a \<open>bleach.clean\<close> that finds no markup, a \<open>fromisoformat\<close> that
  accepts one date, a clock, a PDF reader that fails on the empty file, yields the text
  \<^verbatim>\<open>natureza de operacao\<close> for the file of the single byte 4E and one other text for every other
  file, and a pattern search in which only the tax-id pattern matches.
\<close>

definition doc_sem_infNFe :: xml where
  "doc_sem_infNFe = Element ''NFe'' [] None []"

definition doc_ide_vazio :: xml where
  "doc_ide_vazio =
     Element ''NFe'' [] None
       [Element ''infNFe'' [(''Id'', ''NFe35200114200166000187550010000000071123456789'')] None
          [Element ''ide'' [] None [],
           Element ''emit'' [] None [Element ''CNPJ'' [] (Some ''11222333000181'') []],
           Element ''total'' [] None
             [Element ''ICMSTot'' [] None [Element ''vNF'' [] (Some ''1500.00'') []]]]]"

definition doc_dest_vazio :: xml where
  "doc_dest_vazio =
     Element ''NFe'' [] None
       [Element ''infNFe'' [(''Id'', ''NFe35200114200166000187550010000000071123456789'')] None
          [Element ''ide'' [] None [Element ''nNF'' [] (Some ''123'') []],
           Element ''emit'' [] None [Element ''CNPJ'' [] (Some ''11222333000181'') []],
           Element ''dest'' [] None [],
           Element ''total'' [] None
             [Element ''ICMSTot'' [] None [Element ''vNF'' [] (Some ''1500.00'') []]]]]"

definition libs_exemplo :: bibliotecas where
  "libs_exemplo =
     \<lparr> et_fromstring =
         (\<lambda>s. if s = [60, 78, 70, 101, 47, 62] then Some doc_sem_infNFe else None),
       bleach_clean = (\<lambda>s. s),
       fromisoformat = (\<lambda>s. if s = ''2024-01-15'' then Some 0 else None),
       decode_replace = (\<lambda>b. map unat b),
       agora = 1000,
       pdf_extract_text =
         (\<lambda>b. if b = [] then None
              else if b = [0x4E] then Some ''natureza de operacao''
              else Some ''DANFE  CNPJ: 11.222.333/0001-81''),
       re_search =
         (\<lambda>p texto. if p = PadraoCNPJ \<and> contem ''11.222.333/0001-81'' texto
                    then Some (Some ''11.222.333/0001-81'') else None),
       strptime = (\<lambda>s. None) \<rparr>"

text \<open>
  A database without invoices, and the library functions of the CSV path for the concrete
  runs: \<open>read_csv\<close> reads with the semicolon only and yields a table of three columns, with no
  row for the text \<^verbatim>\<open>numero_nf;codigo;descricao\<close> followed by a line feed (a file that has
  its header line only) and with one row for every other text.
\<close>

definition banco_vazio :: banco where
  "banco_vazio = \<lparr> tabela_notas = [], tabela_itens = [], conexao_ok = True \<rparr>"

definition so_cabecalho_csv :: "byte list" where
  "so_cabecalho_csv =
     [0x6E, 0x75, 0x6D, 0x65, 0x72, 0x6F, 0x5F, 0x6E, 0x66, 0x3B, 0x63, 0x6F, 0x64, 0x69, 0x67,
      0x6F, 0x3B, 0x64, 0x65, 0x73, 0x63, 0x72, 0x69, 0x63, 0x61, 0x6F, 0x0A]"

definition libs_csv_exemplo :: bibliotecas_csv where
  "libs_csv_exemplo =
     \<lparr> read_csv =
         (\<lambda>t delim.
            if delim = CHR '';''
            then Some \<lparr> colunas = [''numero_nf'', ''codigo'', ''descricao''],
                        linhas = (if t = map unat so_cabecalho_csv then []
                                  else [[PInt 1, PStr ''A1'', PStr ''Parafuso'']]) \<rparr>
            else None),
       sem_acentos = (\<lambda>s. s),
       py_str = (\<lambda>v. case v of PInt n \<Rightarrow> (if n = 1 then ''1'' else ''0'') | _ \<Rightarrow> []),
       processar_csv_cabecalho = (\<lambda>df f. ([], [])),
       processar_csv_tradicional = (\<lambda>df f. ([], [])) \<rparr>"

text \<open>
  Two invoices that pass every check up to the items: one whose total value is the string
  \<^verbatim>\<open>1500,00\<close>, and one with an item whose quantity is an integer beyond the range of a
  double.
\<close>

definition nota_texto :: NotaFiscal where
  "nota_texto =
     \<lparr> numero = ''123'', serie = ''1'', data_emissao = Some 1000,
       cnpj_emitente = Some ''11.222.333/0001-81'', nome_emitente = ''ACME'',
       valor_total = PStr ''1500,00'',
       chave_acesso = Some ''35200114200166000187550010000000071123456789'',
       natureza_operacao = ''VENDA'', situacao = ''Pendente'', data_vencimento = None,
       cnpj_destinatario = None, nome_destinatario = None,
       valor_icms = PFloat (Fin 0), valor_ipi = PFloat (Fin 0), valor_pis = PFloat (Fin 0),
       valor_cofins = PFloat (Fin 0), itens = [], xml_original = None, processado_em = 1000 \<rparr>"

definition nota_overflow :: NotaFiscal where
  "nota_overflow =
     nota_texto\<lparr> valor_total := PFloat (Fin 1500),
                 itens := [ItemDict [(''descricao'', PStr ''Parafuso''), (''codigo'', PStr ''A1''),
                                     (''quantidade'', PInt (2 ^ 1024))]] \<rparr>"


section \<open>Properties of the tax-id validation\<close>

text \<open>
  On a string of fourteen digits the loops of \<^verbatim>\<open>_calcular_digito_cnpj\<close> compute the two
  weighted sums with the written-out weight lists, so the code accepts exactly the strings
  whose check digits are the standard ones.
\<close>

lemma length14_explode:
  "length (s::'a list) = 14 \<Longrightarrow> \<exists>a0 a1 a2 a3 a4 a5 a6 a7 a8 a9 a10 a11 a12 a13.
     s = [a0, a1, a2, a3, a4, a5, a6, a7, a8, a9, a10, a11, a12, a13]"
  by (auto simp: numeral_eq_Suc length_Suc_conv)

lemma upt12: "[0..<12] = [0,1,2,3,4,5,6,7,8,9,10,11]"
  by code_simp

lemma upt13: "[0..<13] = [0,1,2,3,4,5,6,7,8,9,10,11,12]"
  by code_simp

lemma py_int_at_digit:
  "i < length s \<Longrightarrow> is_digit (s ! i) \<Longrightarrow> py_int_at s i = Inr (valor_digito (s ! i))"
  by (simp add: py_int_at_def py_int_char_def valor_digito_def)

lemma calcular_digito_cnpj_spec:
  assumes "length s = 14" "list_all is_digit s"
  shows "calcular_digito_cnpj s = digitos_verificadores_ok s"
proof -
  obtain a0 a1 a2 a3 a4 a5 a6 a7 a8 a9 a10 a11 a12 a13 where
    s: "s = [a0, a1, a2, a3, a4, a5, a6, a7, a8, a9, a10, a11, a12, a13]"
    using length14_explode[OF assms(1)] by blast
  have at: "\<And>i. i < 14 \<Longrightarrow> py_int_at s i = Inr (valor_digito (s ! i))"
    using assms by (simp add: py_int_at_digit list_all_length)
  have s1: "soma_pesos s [0..<12] 0 5 = Inr (soma_ponderada pesos_dv1 (take 12 (map valor_digito s)))"
    unfolding upt12 by (simp add: at) (simp add: s soma_ponderada_def pesos_dv1_def)
  have s2: "soma_pesos s [0..<13] 0 6 = Inr (soma_ponderada pesos_dv2 (take 13 (map valor_digito s)))"
    unfolding upt13 by (simp add: at) (simp add: s soma_ponderada_def pesos_dv2_def)
  show ?thesis
    unfolding calcular_digito_cnpj_def digitos_verificadores_ok_def s1 s2
    by (simp add: at Let_def digito_mod11_def assms(1)) 
qed


lemma valor_digito_range: "is_digit c \<Longrightarrow> 0 \<le> valor_digito c \<and> valor_digito c \<le> 9"
  by (auto simp: is_digit_def valor_digito_def)

lemma valor_digito_inj: "valor_digito c = valor_digito c' \<longleftrightarrow> c = c'"
  by (auto simp: valor_digito_def)

lemma valor_digito_zero: "is_digit c \<Longrightarrow> valor_digito c = 0 \<longleftrightarrow> c = CHR ''0''"
  by (auto simp: is_digit_def valor_digito_def)

lemma so_digitos_id: "list_all is_digit s \<Longrightarrow> so_digitos s = s"
  by (induction s) (auto simp: so_digitos_def)

lemma validar_cnpj_14:
  assumes "length s = 14" "list_all is_digit s"
  shows "validar_cnpj (Some s) = (s \<noteq> replicate 14 (s ! 0) \<and> digitos_verificadores_ok s)"
  using assms by (auto simp: validar_cnpj_def so_digitos_id calcular_digito_cnpj_spec Let_def)

lemma soma_ponderada_update:
  "i < length ws \<Longrightarrow> i < length ds \<Longrightarrow>
   soma_ponderada ws (ds[i := e]) = soma_ponderada ws ds + ws ! i * (e - ds ! i)"
proof (induction ws arbitrary: ds i)
  case Nil
  then show ?case by simp
next
  case (Cons w ws)
  then obtain d ds' where ds: "ds = d # ds'" by (cases ds) auto
  show ?case
  proof (cases i)
    case 0
    then show ?thesis by (simp add: ds soma_ponderada_def algebra_simps)
  next
    case (Suc j)
    with Cons.prems ds have "j < length ws" "j < length ds'" by auto
    from Cons.IH[OF this] show ?thesis
      by (simp add: ds Suc soma_ponderada_def)
  qed
qed

lemma mod11_shift:
  fixes A w d :: int
  assumes "2 \<le> w" "w \<le> 9" "-9 \<le> d" "d \<le> 9" "d \<noteq> 0"
  shows "(A + w * d) mod 11 \<noteq> A mod 11"
proof
  assume "(A + w * d) mod 11 = A mod 11"
  then have "(w * d) mod 11 = 0"
    by (metis add_diff_cancel_left' mod_diff_cong cancel_comm_monoid_add_class.diff_cancel mod_0)
  moreover from assms have "w = 2 \<or> w = 3 \<or> w = 4 \<or> w = 5 \<or> w = 6 \<or> w = 7 \<or> w = 8 \<or> w = 9"
    by arith
  ultimately show False
    using assms(3-5) by (elim disjE; simp; presburger)
qed

lemma digito_mod11_eq:
  "digito_mod11 a = digito_mod11 b \<Longrightarrow> a mod 11 \<noteq> b mod 11 \<Longrightarrow>
   a mod 11 < 2 \<and> b mod 11 < 2 \<and> digito_mod11 a = 0"
  by (auto simp: digito_mod11_def Let_def split: if_splits)


lemma lt12_cases:
  "i < (12::nat) \<Longrightarrow> i = 0 \<or> i = 1 \<or> i = 2 \<or> i = 3 \<or> i = 4 \<or> i = 5 \<or> i = 6 \<or> i = 7 \<or> i = 8
     \<or> i = 9 \<or> i = 10 \<or> i = 11"
  by arith

lemma pesos_range:
  assumes "i < 12"
  shows "2 \<le> pesos_dv1 ! i \<and> pesos_dv1 ! i \<le> 9 \<and> 2 \<le> pesos_dv2 ! i \<and> pesos_dv2 ! i \<le> 9"
  using lt12_cases[OF assms] by (elim disjE; simp add: pesos_dv1_def pesos_dv2_def)

lemma slip_residue:
  fixes A x :: int
  shows "A mod 11 < 2 \<Longrightarrow> (A + x) mod 11 < 2 \<Longrightarrow> x mod 11 \<in> {0, 1, 10}"
  by simp presburger

lemma delta_cases:
  fixes d :: int
  shows "-9 \<le> d \<Longrightarrow> d \<le> 9 \<Longrightarrow> d \<noteq> 0 \<Longrightarrow>
    d = -9 \<or> d = -8 \<or> d = -7 \<or> d = -6 \<or> d = -5 \<or> d = -4 \<or> d = -3 \<or> d = -2 \<or> d = -1 \<or>
    d = 1 \<or> d = 2 \<or> d = 3 \<or> d = 4 \<or> d = 5 \<or> d = 6 \<or> d = 7 \<or> d = 8 \<or> d = 9"
  by arith

lemma no_double_residue:
  fixes d :: int
  assumes "i < 12" "i \<notin> {0, 4, 8}" "-9 \<le> d" "d \<le> 9" "d \<noteq> 0"
    and "(pesos_dv1 ! i * d) mod 11 \<in> {0, 1, 10}"
    and "(pesos_dv2 ! i * d) mod 11 \<in> {0, 1, 10}"
  shows False
  using lt12_cases[OF assms(1)] delta_cases[OF assms(3-5)] assms(2,6,7)
  by (elim disjE; simp add: pesos_dv1_def pesos_dv2_def)

lemma no_double_slip:
  fixes A B d :: int
  assumes "i < 12" "i \<notin> {0, 4, 8}" "-9 \<le> d" "d \<le> 9" "d \<noteq> 0"
    and "A mod 11 < 2" "(A + pesos_dv1 ! i * d) mod 11 < 2"
    and "B mod 11 < 2" "(B + pesos_dv2 ! i * d) mod 11 < 2"
  shows False
  using no_double_residue[OF assms(1-5) slip_residue[OF assms(6,7)] slip_residue[OF assms(8,9)]] .


lemma mutation_detected:
  assumes len: "length s = 14" and dig: "list_all is_digit s"
    and ok: "digitos_verificadores_ok s"
    and i: "i < 14" and c: "is_digit c" "c \<noteq> s ! i"
    and pos: "i \<notin> {0, 4, 8} \<or> s ! 12 \<noteq> CHR ''0'' \<or> s ! 13 \<noteq> CHR ''0''"
  shows "\<not> digitos_verificadores_ok (s[i := c])"
proof
  assume ok': "digitos_verificadores_ok (s[i := c])"
  define ds where "ds = map valor_digito s"
  define e where "e = valor_digito c"
  define d where "d = e - ds ! i"
  have lds: "length ds = 14" by (simp add: ds_def len)
  have dsi: "ds ! i = valor_digito (s ! i)" using i len by (simp add: ds_def)
  have "is_digit (s ! i)" using dig i len by (simp add: list_all_length)
  from valor_digito_range[OF this] valor_digito_range[OF c(1)] c(2)
  have d: "-9 \<le> d" "d \<le> 9" "d \<noteq> 0"
    by (auto simp: d_def e_def dsi valor_digito_inj)
  have ds': "map valor_digito (s[i := c]) = ds[i := e]"
    by (simp add: ds_def e_def map_update)
  define S1 where "S1 = soma_ponderada pesos_dv1 (take 12 ds)"
  define S2 where "S2 = soma_ponderada pesos_dv2 (take 13 ds)"
  from ok have v: "ds ! 12 = digito_mod11 S1" "ds ! 13 = digito_mod11 S2"
    by (simp_all add: digitos_verificadores_ok_def Let_def ds_def S1_def S2_def)
  from ok' have v': "ds[i := e] ! 12 = digito_mod11 (soma_ponderada pesos_dv1 (take 12 (ds[i := e])))"
    "ds[i := e] ! 13 = digito_mod11 (soma_ponderada pesos_dv2 (take 13 (ds[i := e])))"
    unfolding digitos_verificadores_ok_def ds' Let_def by simp_all
  consider "i = 13" | "i = 12" | "i < 12" using i by arith
  then show False
  proof cases
    case 1
    with v'(2) lds have "e = digito_mod11 S2" by (simp add: S2_def)
    with v(2) d(3) 1 show False by (simp add: d_def)
  next
    case 2
    with v'(1) lds have "e = digito_mod11 S1" by (simp add: S1_def)
    with v(1) d(3) 2 show False by (simp add: d_def)
  next
    case 3
    have t1: "soma_ponderada pesos_dv1 (take 12 (ds[i := e])) = S1 + pesos_dv1 ! i * d"
      using 3 lds
      by (simp add: take_update_swap soma_ponderada_update S1_def d_def pesos_dv1_def)
    have t2: "soma_ponderada pesos_dv2 (take 13 (ds[i := e])) = S2 + pesos_dv2 ! i * d"
      using 3 lds
      by (simp add: take_update_swap soma_ponderada_update S2_def d_def pesos_dv2_def)
    from v' 3 have e1: "digito_mod11 (S1 + pesos_dv1 ! i * d) = digito_mod11 S1"
      and e2: "digito_mod11 (S2 + pesos_dv2 ! i * d) = digito_mod11 S2"
      unfolding t1 t2 using v by simp_all
    from pesos_range[OF 3] have w: "2 \<le> pesos_dv1 ! i" "pesos_dv1 ! i \<le> 9"
      "2 \<le> pesos_dv2 ! i" "pesos_dv2 ! i \<le> 9" by simp_all
    note m1 = digito_mod11_eq[OF e1 mod11_shift[OF w(1,2) d]]
    note m2 = digito_mod11_eq[OF e2 mod11_shift[OF w(3,4) d]]
    from m1 m2 v e1 e2 have z: "ds ! 12 = 0" "ds ! 13 = 0" by simp_all
    have "is_digit (s ! 12)" "is_digit (s ! 13)" using dig len by (simp_all add: list_all_length)
    with z have "s ! 12 = CHR ''0''" "s ! 13 = CHR ''0''"
      using len by (simp_all add: ds_def valor_digito_zero)
    with pos have "i \<notin> {0, 4, 8}" by simp
    from no_double_slip[OF 3 this d] m1 m2 show False by blast
  qed
qed

text \<open>
  C1 (as amended). Every string of fourteen digits that are not all identical and whose two
  check digits are the standard weighted modulo-11 digits is accepted by \<^verbatim>\<open>_validar_cnpj\<close>.
  Replacing one digit of such a string by a different digit gives a string that is
  rejected, except possibly when both check digits are \<open>0\<close> and the replaced digit is the
  first, fifth or ninth one: remainders 0 and 1 share the check digit 0, and at these three
  positions the weights of the two sums add up to 11.
\<close>

theorem validar_cnpj_checksum:
  assumes "length s = 14" and "list_all is_digit s"
    and "s \<noteq> replicate 14 (s ! 0)"
    and "digitos_verificadores_ok s"
  shows "validar_cnpj (Some s) \<and>
    (\<forall>i c. i < 14 \<and> is_digit c \<and> c \<noteq> s ! i \<and>
       (i \<notin> {0, 4, 8} \<or> s ! 12 \<noteq> CHR ''0'' \<or> s ! 13 \<noteq> CHR ''0'')
       \<longrightarrow> \<not> validar_cnpj (Some (s[i := c])))"
proof (intro conjI allI impI)
  show "validar_cnpj (Some s)"
    using assms by (simp add: validar_cnpj_14)
next
  fix i c
  assume h: "i < 14 \<and> is_digit c \<and> c \<noteq> s ! i \<and>
       (i \<notin> {0, 4, 8} \<or> s ! 12 \<noteq> CHR ''0'' \<or> s ! 13 \<noteq> CHR ''0'')"
  have "list_all is_digit (s[i := c])"
    using assms(1,2) h by (simp add: list_all_length nth_list_update)
  moreover have "length (s[i := c]) = 14" using assms(1) by simp
  ultimately have "validar_cnpj (Some (s[i := c])) =
      (s[i := c] \<noteq> replicate 14 (s[i := c] ! 0) \<and> digitos_verificadores_ok (s[i := c]))"
    by (rule validar_cnpj_14[rotated])
  moreover have "\<not> digitos_verificadores_ok (s[i := c])"
    using mutation_detected[OF assms(1,2,4)] h by blast
  ultimately show "\<not> validar_cnpj (Some (s[i := c]))" by simp
qed

text \<open>The theorem at the valid id 11.222.333/0001-81, with its first and its last digit changed.\<close>

theorem validar_cnpj_checksum_witness:
  "validar_cnpj (Some ''11222333000181'') \<and> \<not> validar_cnpj (Some (''11222333000181''[0 := CHR ''7'']))
   \<and> \<not> validar_cnpj (Some (''11222333000181''[13 := CHR ''0'']))"
proof -
  have h1: "length ''11222333000181'' = 14" by simp
  have h2: "list_all is_digit ''11222333000181''" by (simp add: is_digit_def)
  have h3: "''11222333000181'' \<noteq> replicate 14 (''11222333000181'' ! 0)" by code_simp
  have h4: "digitos_verificadores_ok ''11222333000181''" by code_simp
  note t = validar_cnpj_checksum[OF h1 h2 h3 h4]
  from t have a: "validar_cnpj (Some ''11222333000181'')" by (rule conjunct1)
  from t have "\<not> validar_cnpj (Some (''11222333000181''[0 := CHR ''7'']))"
    by (elim conjE allE[of _ 0] allE[of _ "CHR ''7''"]) (simp add: is_digit_def)
  moreover from t have "\<not> validar_cnpj (Some (''11222333000181''[13 := CHR ''0'']))"
    by (elim conjE allE[of _ 13] allE[of _ "CHR ''0''"]) (simp add: is_digit_def)
  ultimately show ?thesis using a by blast
qed

text \<open>
  C1 as stated fails: 71046563414800 is accepted, and so is 51046563414800, which differs
  from it in the first digit only.
\<close>

theorem validar_cnpj_mutation_counterexample:
  "validar_cnpj (Some ''71046563414800'') \<and> validar_cnpj (Some (''71046563414800''[0 := CHR ''5'']))"
  by code_simp

section \<open>Properties of the access-key sanitizer\<close>

lemma py_replace_absent:
  "old \<noteq> [] \<Longrightarrow> hd old \<notin> set s \<Longrightarrow> py_replace old new s = s"
proof (induction s)
  case Nil
  then show ?case by simp
next
  case (Cons c s)
  then have "take (length old) (c # s) \<noteq> old"
    by (cases old) auto
  with Cons show ?case by simp
qed

lemma so_digitos_all: "list_all is_digit (so_digitos s)"
  by (induction s) (auto simp: so_digitos_def)

lemma so_digitos_idem: "so_digitos (so_digitos s) = so_digitos s"
  by (simp add: so_digitos_def)

lemma N_no_digit: "\<not> is_digit CHR ''N''"
  by code_simp

lemma digits_no_N: "list_all is_digit s \<Longrightarrow> CHR ''N'' \<notin> set s"
  using N_no_digit by (induction s) auto

text \<open>
  C9. Sanitizing an access key twice gives what sanitizing it once gives: a failed result
  (\<open>None\<close>) stays \<open>None\<close>, and a successful result, which is a string of 44 digits, is
  returned unchanged.
\<close>

theorem sanitize_chave_acesso_idempotent:
  "sanitize_chave_acesso (sanitize_chave_acesso x) = sanitize_chave_acesso x
   \<and> sanitize_chave_acesso None = None"
proof (cases "sanitize_chave_acesso x")
  case None
  then show ?thesis by (simp add: sanitize_chave_acesso_def)
next
  case (Some r)
  then obtain s where r: "r = so_digitos (py_replace ''NFe'' [] s)" and len: "length r = 44"
    by (auto simp: sanitize_chave_acesso_def Let_def split: option.splits if_splits)
  have "list_all is_digit r" by (simp add: r so_digitos_all)
  then have "py_replace ''NFe'' [] r = r"
    by (intro py_replace_absent) (simp_all add: digits_no_N)
  moreover have "so_digitos r = r" by (simp add: r so_digitos_idem)
  moreover have "r \<noteq> []" using len by auto
  ultimately have "sanitize_chave_acesso (Some r) = Some r"
    by (simp add: sanitize_chave_acesso_def len)
  with Some show ?thesis by (simp add: sanitize_chave_acesso_def)
qed

section \<open>The two numeric conversions\<close>

text \<open>
  C5 at the input \<^verbatim>\<open>1.234,56\<close>: \<^verbatim>\<open>sanitize_numeric_value\<close> turns the comma into a second point,
  \<^verbatim>\<open>float()\<close> fails and the result is 0.0, while \<^verbatim>\<open>converter_valor_numerico\<close>, the helper of the
  items file, removes the point first and gives 1234.56.
\<close>

theorem sanitize_numeric_value_thousands:
  "sanitize_numeric_value (PStr ''1.234,56'') = Inr (Fin 0)
   \<and> converter_valor_numerico str_fn (PStr ''1.234,56'') = Fin (30864 / 25)"
  by code_simp

text \<open>
  With a comma only, both give the number; and an integer beyond the range of a double
  makes \<^verbatim>\<open>sanitize_numeric_value\<close> raise OverflowError, which its handler does not catch.
\<close>

lemma sanitize_numeric_value_comma:
  "sanitize_numeric_value (PStr ''1234,56'') = Inr (Fin (30864 / 25))
   \<and> converter_valor_numerico str_fn (PStr ''1234,56'') = Fin (30864 / 25)"
  by code_simp

lemma sanitize_numeric_value_overflow:
  "sanitize_numeric_value (PInt (2 ^ 1024)) = Inl OverflowError"
  by code_simp

section \<open>Properties of the validator\<close>

lemma validar_valores_frame:
  "snd (validar_valores nota) = nota
   \<or> (\<exists>s f. valor_total nota = PStr s \<and> py_float_str (py_replace '','' ''.'' s) = Inr f
          \<and> snd (validar_valores nota) = nota\<lparr>valor_total := PFloat f\<rparr>)"
  by (cases "valor_total nota")
    (auto simp: validar_valores_def split: sum.splits if_splits)

lemma validar_corpo_snd:
  "snd (validar_corpo agora_dt nota) = nota \<or> snd (validar_corpo agora_dt nota) = snd (validar_valores nota)"
  by (auto simp: validar_corpo_def split: prod.splits sum.splits if_splits)

lemma validar_nota_fiscal_snd:
  "snd (validar_nota_fiscal agora_dt nota) = snd (validar_corpo agora_dt nota)"
  by (auto simp: validar_nota_fiscal_def split: prod.splits sum.splits)

lemma validar_nota_fiscal_fst:
  "fst (validar_nota_fiscal agora_dt nota) = (fst (validar_corpo agora_dt nota) = Inr True)"
  by (auto simp: validar_nota_fiscal_def split: prod.splits sum.splits)

text \<open>
  C8. Validation returns a boolean and no exception leaves it: the result is \<open>True\<close> exactly
  when the \<^verbatim>\<open>try\<close> block returns \<open>True\<close>, and \<open>False\<close> when the block returns \<open>False\<close> or raises.
  The invoice after validation is the invoice before it, or, when the total value was a
  string that \<^verbatim>\<open>float()\<close> accepts after replacing commas by points, the invoice with that
  float as its total value and every other field unchanged; this holds for both results.
\<close>

theorem validar_nota_fiscal_frame:
  "(snd (validar_nota_fiscal agora_dt nota) = nota
    \<or> (\<exists>s f. valor_total nota = PStr s \<and> py_float_str (py_replace '','' ''.'' s) = Inr f
          \<and> snd (validar_nota_fiscal agora_dt nota) = nota\<lparr>valor_total := PFloat f\<rparr>))
   \<and> fst (validar_nota_fiscal agora_dt nota) = (fst (validar_corpo agora_dt nota) = Inr True)"
  using validar_valores_frame[of nota] validar_corpo_snd[of agora_dt nota]
  by (auto simp: validar_nota_fiscal_snd validar_nota_fiscal_fst)


text \<open>
  Two runs: a total value given as the string \<^verbatim>\<open>1500,00\<close> is accepted and replaced by the float
  1500, and an OverflowError raised inside the check of the items, which the handler of
  that check does not catch, ends in \<open>False\<close> at the boundary of the validator.
\<close>

lemma validar_nota_fiscal_texto:
  "validar_nota_fiscal 1000 nota_texto = (True, nota_texto\<lparr>valor_total := PFloat (Fin 1500)\<rparr>)"
  by code_simp

lemma validar_nota_fiscal_overflow:
  "fst (validar_corpo 1000 nota_overflow) = Inl OverflowError
   \<and> validar_nota_fiscal 1000 nota_overflow = (False, nota_overflow)"
  by code_simp

section \<open>Properties of the XML extraction\<close>

text \<open>
  C4. An XML input of more than 10 MiB (10 * 1024 * 1024 bytes) is rejected by the size
  check: the extraction returns \<open>None\<close>, and it neither decodes the bytes nor runs the
  parser; the only thing it does is to write the opening record of the audit log.
\<close>

theorem xml_oversized_rejected_before_parse:
  assumes "length xml_content > 10 * 1024 * 1024"
  shows "parse_xml_safely libs xml_content = (None, [])
    \<and> extrair_dados_xml libs xml_content filename = (None, [Auditoria ''FILE_PROCESSING'' False])
    \<and> Decodificacao \<notin> set (snd (extrair_dados_xml libs xml_content filename))
    \<and> AnaliseXML \<notin> set (snd (extrair_dados_xml libs xml_content filename))"
  using assms
  by (simp add: extrair_dados_xml_def parse_xml_safely_def validate_xml_size_def MAX_XML_SIZE_def)

text \<open>The theorem at an input of 10 MiB and one byte.\<close>

theorem xml_oversized_rejected_before_parse_witness:
  "extrair_dados_xml libs_exemplo (replicate 10485761 0x20) ''grande.xml''
   = (None, [Auditoria ''FILE_PROCESSING'' False])"
proof -
  have "length (replicate 10485761 (0x20 :: byte)) > 10 * 1024 * 1024" by simp
  from xml_oversized_rejected_before_parse[OF this] show ?thesis by blast
qed

text \<open>
  C6. The extraction returns \<open>None\<close> when the bytes are not strictly decodable as UTF-8,
  when the parser rejects the document, when the tag of the root without its namespace is
  neither \<^verbatim>\<open>nfeProc\<close> nor \<^verbatim>\<open>NFe\<close>, and when the root has no descendant \<^verbatim>\<open>infNFe\<close>, neither in
  the namespace of the NF-e nor without namespace. The extractor has no access to the
  persisted tables; what it does besides returning is to write the opening record of the
  audit log and to decode and parse, and no record of success is written.
\<close>

theorem xml_invalid_rejected:
  assumes "utf8_decode xml_content = None
    \<or> (\<exists>s. utf8_decode xml_content = Some s
          \<and> (et_fromstring libs s = None
             \<or> (\<exists>r. et_fromstring libs s = Some r
                   \<and> (root_tag_local (xml_tag r) \<notin> {''nfeProc'', ''NFe''}
                      \<or> (xml_find (nfe ''infNFe'') r = None \<and> xml_find ''infNFe'' r = None)))))"
  shows "fst (extrair_dados_xml libs xml_content filename) = None
    \<and> set (snd (extrair_dados_xml libs xml_content filename))
        \<subseteq> {Auditoria ''FILE_PROCESSING'' False, Decodificacao, AnaliseXML}"
  using assms
  by (auto simp: extrair_dados_xml_def parse_xml_safely_def validate_xml_structure_def Let_def
      split: option.splits if_splits)


text \<open>
  The theorem at the document \<^verbatim>\<open><NFe/>\<close>, which has no \<^verbatim>\<open>infNFe\<close>, and at the single byte FF,
  which is not UTF-8.
\<close>

theorem xml_invalid_rejected_witness:
  "fst (extrair_dados_xml libs_exemplo [0x3C, 0x4E, 0x46, 0x65, 0x2F, 0x3E] ''sem_infNFe.xml'') = None
   \<and> set (snd (extrair_dados_xml libs_exemplo [0x3C, 0x4E, 0x46, 0x65, 0x2F, 0x3E] ''sem_infNFe.xml''))
        \<subseteq> {Auditoria ''FILE_PROCESSING'' False, Decodificacao, AnaliseXML}
   \<and> fst (extrair_dados_xml libs_exemplo [0xFF] ''latin1.xml'') = None"
proof -
  have d: "utf8_decode [0x3C, 0x4E, 0x46, 0x65, 0x2F, 0x3E] = Some [60, 78, 70, 101, 47, 62]"
    by code_simp
  have p: "et_fromstring libs_exemplo [60, 78, 70, 101, 47, 62] = Some doc_sem_infNFe"
    by (simp add: libs_exemplo_def)
  have f: "xml_find (nfe ''infNFe'') doc_sem_infNFe = None \<and> xml_find ''infNFe'' doc_sem_infNFe = None"
    by code_simp
  have h: "utf8_decode [0x3C, 0x4E, 0x46, 0x65, 0x2F, 0x3E] = None
    \<or> (\<exists>s. utf8_decode [0x3C, 0x4E, 0x46, 0x65, 0x2F, 0x3E] = Some s
          \<and> (et_fromstring libs_exemplo s = None
             \<or> (\<exists>r. et_fromstring libs_exemplo s = Some r
                   \<and> (root_tag_local (xml_tag r) \<notin> {''nfeProc'', ''NFe''}
                      \<or> (xml_find (nfe ''infNFe'') r = None \<and> xml_find ''infNFe'' r = None)))))"
    using d p f by blast
  have u: "utf8_decode [0xFF] = None" by code_simp
  then have h2: "utf8_decode [0xFF] = None
    \<or> (\<exists>s. utf8_decode [0xFF] = Some s
          \<and> (et_fromstring libs_exemplo s = None
             \<or> (\<exists>r. et_fromstring libs_exemplo s = Some r
                   \<and> (root_tag_local (xml_tag r) \<notin> {''nfeProc'', ''NFe''}
                      \<or> (xml_find (nfe ''infNFe'') r = None \<and> xml_find ''infNFe'' r = None)))))"
    by blast
  from xml_invalid_rejected[OF h, of "''sem_infNFe.xml''"]
    xml_invalid_rejected[OF h2, of "''latin1.xml''"]
  show ?thesis by blast
qed

section \<open>Mandatory elements of the XML document\<close>

lemma py_float_str_error: "py_float_str s = Inl e \<Longrightarrow> e = ValueError"
  by (auto simp: py_float_str_def Let_def split: if_splits prod.splits option.splits)

lemma sanitize_numeric_value_str: "\<exists>f. sanitize_numeric_value (PStr s) = Inr f"
proof (cases "py_float_str (py_replace '','' ''.'' (filter caractere_numerico s))")
  case (Inl e)
  then have "e = ValueError" by (rule py_float_str_error)
  with Inl show ?thesis by (simp add: sanitize_numeric_value_def Let_def)
next
  case (Inr f)
  then show ?thesis by (simp add: sanitize_numeric_value_def Let_def)
qed

lemma valor_numerico_Some: "\<exists>f. valor_numerico e t ns = Some f"
  using sanitize_numeric_value_str[of "get_text_safe (Some e) t ns"]
  by (auto simp: valor_numerico_def)

lemma extrair_dados_seguros_iff:
  assumes "(xml_find (nfe ''infNFe'') r = Some inf_el \<and> ns)
         \<or> (xml_find (nfe ''infNFe'') r = None \<and> xml_find ''infNFe'' r = Some inf_el \<and> \<not> ns)"
  shows "(extrair_dados_seguros libs r bs \<noteq> None) =
     (elemento_verdadeiro (buscar ns ''ide'' inf_el) \<and> elemento_verdadeiro (buscar ns ''emit'' inf_el)
      \<and> elemento_verdadeiro (buscar ns ''total'' inf_el)
      \<and> (\<exists>t. buscar ns ''total'' inf_el = Some t \<and> buscar ns ''ICMSTot'' t \<noteq> None))"
proof -
  have v: "\<And>e t n. valor_numerico e t n \<noteq> None"
    using valor_numerico_Some by (metis option.distinct(1))
  from assms show ?thesis
    apply (elim disjE conjE)
     apply (simp add: extrair_dados_seguros_def Let_def)
     apply (auto simp: elemento_verdadeiro_def v split: option.splits)[1]
    apply (simp add: extrair_dados_seguros_def Let_def)
    apply (auto simp: elemento_verdadeiro_def v split: option.splits)[1]
    done
qed


lemma nome_destinatario_presenca:
  assumes "(xml_find (nfe ''infNFe'') r = Some inf_el \<and> ns)
         \<or> (xml_find (nfe ''infNFe'') r = None \<and> xml_find ''infNFe'' r = Some inf_el \<and> \<not> ns)"
    and "extrair_dados_seguros libs r bs = Some nota"
  shows "(nome_destinatario nota = None) = (buscar ns ''dest'' inf_el = None)"
  using assms
  apply (elim disjE conjE)
   apply (simp add: extrair_dados_seguros_def Let_def)
   apply (auto split: option.splits if_splits)[1]
  apply (simp add: extrair_dados_seguros_def Let_def)
  apply (auto split: option.splits if_splits)[1]
  done

text \<open>
  C10. Once \<^verbatim>\<open>infNFe\<close> is found, the extraction returns \<open>None\<close> when one of \<^verbatim>\<open>ide\<close>, \<^verbatim>\<open>emit\<close>,
  \<^verbatim>\<open>total\<close> is absent and also when one of them is present without child elements: the test
  takes the truth value of the elements, and an element without children is false. When
  the three elements have children and \<^verbatim>\<open>ICMSTot\<close> is found, a record is returned whatever
  \<^verbatim>\<open>dest\<close> is, and the recipient fields of the record are \<open>None\<close> exactly when \<^verbatim>\<open>dest\<close> is
  absent: \<^verbatim>\<open>dest\<close> is tested for presence only.
\<close>

theorem elementos_obrigatorios_sem_filhos:
  assumes "(xml_find (nfe ''infNFe'') r = Some inf_el \<and> ns)
         \<or> (xml_find (nfe ''infNFe'') r = None \<and> xml_find ''infNFe'' r = Some inf_el \<and> \<not> ns)"
  shows "((\<exists>m \<in> set [''ide'', ''emit'', ''total''].
             buscar ns m inf_el = None \<or> (\<exists>e. buscar ns m inf_el = Some e \<and> xml_children e = []))
          \<longrightarrow> extrair_dados_seguros libs r bs = None)
    \<and> ((\<forall>m \<in> set [''ide'', ''emit'', ''total''].
             \<exists>e. buscar ns m inf_el = Some e \<and> xml_children e \<noteq> [])
         \<and> (\<exists>t. buscar ns ''total'' inf_el = Some t \<and> buscar ns ''ICMSTot'' t \<noteq> None)
          \<longrightarrow> extrair_dados_seguros libs r bs \<noteq> None)
    \<and> (\<forall>nota. extrair_dados_seguros libs r bs = Some nota
          \<longrightarrow> (nome_destinatario nota = None) = (buscar ns ''dest'' inf_el = None))"
proof (intro conjI impI allI)
  assume "\<exists>m \<in> set [''ide'', ''emit'', ''total''].
             buscar ns m inf_el = None \<or> (\<exists>e. buscar ns m inf_el = Some e \<and> xml_children e = [])"
  then have "\<not> (elemento_verdadeiro (buscar ns ''ide'' inf_el)
      \<and> elemento_verdadeiro (buscar ns ''emit'' inf_el)
      \<and> elemento_verdadeiro (buscar ns ''total'' inf_el))"
    by (auto simp: elemento_verdadeiro_def)
  with extrair_dados_seguros_iff[OF assms, of libs bs]
  show "extrair_dados_seguros libs r bs = None" by blast
next
  assume "(\<forall>m \<in> set [''ide'', ''emit'', ''total''].
             \<exists>e. buscar ns m inf_el = Some e \<and> xml_children e \<noteq> [])
         \<and> (\<exists>t. buscar ns ''total'' inf_el = Some t \<and> buscar ns ''ICMSTot'' t \<noteq> None)"
  then have "elemento_verdadeiro (buscar ns ''ide'' inf_el)
      \<and> elemento_verdadeiro (buscar ns ''emit'' inf_el)
      \<and> elemento_verdadeiro (buscar ns ''total'' inf_el)
      \<and> (\<exists>t. buscar ns ''total'' inf_el = Some t \<and> buscar ns ''ICMSTot'' t \<noteq> None)"
    by (auto simp: elemento_verdadeiro_def)
  with extrair_dados_seguros_iff[OF assms, of libs bs]
  show "extrair_dados_seguros libs r bs \<noteq> None" by blast
next
  fix nota
  assume "extrair_dados_seguros libs r bs = Some nota"
  with nome_destinatario_presenca[OF assms]
  show "(nome_destinatario nota = None) = (buscar ns ''dest'' inf_el = None)" by blast
qed

lemma doc_ide_vazio_infNFe:
  "xml_find (nfe ''infNFe'') doc_ide_vazio = None \<and>
   xml_find ''infNFe'' doc_ide_vazio = Some (hd (xml_children doc_ide_vazio))"
  by code_simp

lemma doc_dest_vazio_infNFe:
  "xml_find (nfe ''infNFe'') doc_dest_vazio = None \<and>
   xml_find ''infNFe'' doc_dest_vazio = Some (hd (xml_children doc_dest_vazio))"
  by code_simp

text \<open>
  The theorem at a document whose \<^verbatim>\<open>ide\<close> has no children, and at a document whose \<^verbatim>\<open>dest\<close>
  has no children.
\<close>

theorem elementos_obrigatorios_sem_filhos_witness:
  "extrair_dados_seguros libs_exemplo doc_ide_vazio [] = None
   \<and> extrair_dados_seguros libs_exemplo doc_dest_vazio [] \<noteq> None"
proof -
  have a: "(xml_find (nfe ''infNFe'') doc_ide_vazio = Some (hd (xml_children doc_ide_vazio)) \<and> False)
      \<or> (xml_find (nfe ''infNFe'') doc_ide_vazio = None
          \<and> xml_find ''infNFe'' doc_ide_vazio = Some (hd (xml_children doc_ide_vazio)) \<and> \<not> False)"
    using doc_ide_vazio_infNFe by simp
  have b: "\<exists>m \<in> set [''ide'', ''emit'', ''total''].
      buscar False m (hd (xml_children doc_ide_vazio)) = None
      \<or> (\<exists>e. buscar False m (hd (xml_children doc_ide_vazio)) = Some e \<and> xml_children e = [])"
  proof -
    have "buscar False ''ide'' (hd (xml_children doc_ide_vazio)) = Some (Element ''ide'' [] None [])"
      by code_simp
    then show ?thesis by simp
  qed
  have c: "(xml_find (nfe ''infNFe'') doc_dest_vazio = Some (hd (xml_children doc_dest_vazio)) \<and> False)
      \<or> (xml_find (nfe ''infNFe'') doc_dest_vazio = None
          \<and> xml_find ''infNFe'' doc_dest_vazio = Some (hd (xml_children doc_dest_vazio)) \<and> \<not> False)"
    using doc_dest_vazio_infNFe by simp
  have d: "(\<forall>m \<in> set [''ide'', ''emit'', ''total''].
             \<exists>e. buscar False m (hd (xml_children doc_dest_vazio)) = Some e \<and> xml_children e \<noteq> [])
         \<and> (\<exists>t. buscar False ''total'' (hd (xml_children doc_dest_vazio)) = Some t
               \<and> buscar False ''ICMSTot'' t \<noteq> None)"
  proof -
    have 1: "buscar False ''ide'' (hd (xml_children doc_dest_vazio))
        = Some (Element ''ide'' [] None [Element ''nNF'' [] (Some ''123'') []])" by code_simp
    have 2: "buscar False ''emit'' (hd (xml_children doc_dest_vazio))
        = Some (Element ''emit'' [] None [Element ''CNPJ'' [] (Some ''11222333000181'') []])"
      by code_simp
    have 3: "buscar False ''total'' (hd (xml_children doc_dest_vazio))
        = Some (Element ''total'' [] None
             [Element ''ICMSTot'' [] None [Element ''vNF'' [] (Some ''1500.00'') []]])"
      by code_simp
    have 4: "buscar False ''ICMSTot'' (Element ''total'' [] None
             [Element ''ICMSTot'' [] None [Element ''vNF'' [] (Some ''1500.00'') []]]) \<noteq> None"
      by code_simp
    show ?thesis using 1 2 3 4 by simp
  qed
  from elementos_obrigatorios_sem_filhos[OF a, of libs_exemplo "[]"] b
  have "extrair_dados_seguros libs_exemplo doc_ide_vazio [] = None" by blast
  moreover from elementos_obrigatorios_sem_filhos[OF c, of libs_exemplo "[]"] d
  have "extrair_dados_seguros libs_exemplo doc_dest_vazio [] \<noteq> None" by blast
  ultimately show ?thesis by blast
qed

text \<open>
  What \<^verbatim>\<open>_extrair_dados_seguros\<close> returns is what the extraction returns, so a document that
  passes the security checks and has a mandatory element without children is rejected by
  \<^verbatim>\<open>extrair_dados_xml\<close> as well, without a record of success in the audit log.
\<close>

lemma extrair_dados_xml_seguros:
  assumes "parse_xml_safely libs xml_content = (Some r, evs)"
  shows "fst (extrair_dados_xml libs xml_content filename) = extrair_dados_seguros libs r xml_content"
  using assms by (simp add: extrair_dados_xml_def split: option.splits)

section \<open>Properties of the PDF extraction\<close>

lemma validar_valores_zero:
  "valor_total nota = PInt 0 \<Longrightarrow> fst (validar_valores nota) = False"
  by (simp add: validar_valores_def eh_numero_def como_float_def float_le_def)

lemma validar_nota_fiscal_zero:
  "valor_total nota = PInt 0 \<Longrightarrow> fst (validar_nota_fiscal agora_dt nota) = False"
  using validar_valores_zero[of nota]
  by (auto simp: validar_nota_fiscal_def validar_corpo_def split: prod.splits sum.splits if_splits)

text \<open>
  Only the pattern without groups can make an extraction raise, and it does so exactly
  when it matches.
\<close>

lemma extrair_valor_isl:
  "isl (extrair_valor libs p texto) = (p = PadraoNaturezaOperacao \<and> natureza_casa texto)"
  by (cases p) (auto simp: extrair_valor_def pesquisar_def grupos_def split: option.splits)

lemma extrair_dados_pdf_None:
  "(extrair_dados_pdf libs pdf_bytes = None) =
     (case pdf_extract_text libs pdf_bytes of
        None \<Rightarrow> True
      | Some texto \<Rightarrow> natureza_casa (colapsar_espacos texto))"
  by (simp add: extrair_dados_pdf_def Let_def extrair_valor_isl split: option.splits)

text \<open>
  As long as the pattern of the operation nature does not match, the two stages compose as
  intended: a readable PDF without a match for the total value gives a record with total
  value 0, which the check of the values and the validator reject.
\<close>

lemma pdf_sem_valor_total:
  assumes "pdf_extract_text libs pdf_bytes = Some texto"
    and "re_search libs PadraoValorTotal (colapsar_espacos texto) = None"
    and "\<not> natureza_casa (colapsar_espacos texto)"
  shows "\<exists>nota. extrair_dados_pdf libs pdf_bytes = Some nota \<and> valor_total nota = PInt 0
           \<and> fst (validar_valores nota) = False
           \<and> fst (validar_nota_fiscal agora_dt nota) = False"
proof -
  have r: "extrair_valor libs PadraoValorTotal (colapsar_espacos texto) = Inr None"
    using assms(2) by (simp add: extrair_valor_def pesquisar_def)
  from assms(1,3) obtain nota where n: "extrair_dados_pdf libs pdf_bytes = Some nota"
    using extrair_dados_pdf_None[of libs pdf_bytes] by auto
  from n assms(1,3) have v: "valor_total nota = PInt 0"
    by (auto simp: extrair_dados_pdf_def Let_def extrair_valor_isl r split: if_splits)
  from v have "fst (validar_valores nota) = False" by (rule validar_valores_zero)
  moreover from v have "fst (validar_nota_fiscal agora_dt nota) = False"
    by (rule validar_nota_fiscal_zero)
  ultimately show ?thesis using n v by blast
qed

lemma pdf_sem_valor_total_exemplo:
  "\<exists>nota. extrair_dados_pdf libs_exemplo [0x25] = Some nota \<and> valor_total nota = PInt 0
      \<and> fst (validar_valores nota) = False \<and> fst (validar_nota_fiscal 1000 nota) = False"
proof -
  have h1: "pdf_extract_text libs_exemplo [0x25] = Some ''DANFE  CNPJ: 11.222.333/0001-81''"
    by code_simp
  have h2: "re_search libs_exemplo PadraoValorTotal
              (colapsar_espacos ''DANFE  CNPJ: 11.222.333/0001-81'') = None"
    by (simp add: libs_exemplo_def)
  have h3: "\<not> natureza_casa (colapsar_espacos ''DANFE  CNPJ: 11.222.333/0001-81'')"
    by code_simp
  from pdf_sem_valor_total[OF h1 h2 h3, of 1000] show ?thesis .
qed

text \<open>
  C7 at a readable PDF whose text is \<^verbatim>\<open>natureza de operacao\<close>: the pattern of the total value
  finds no match, the pattern of the operation nature matches, \<^verbatim>\<open>match.group(1)\<close> raises
  IndexError because that pattern has no capture group, and the extractor returns \<open>None\<close>
  instead of a record with total value 0.
\<close>

theorem pdf_natureza_sem_grupo:
  "pdf_extract_text libs_exemplo [0x4E] = Some ''natureza de operacao''
   \<and> re_search libs_exemplo PadraoValorTotal (colapsar_espacos ''natureza de operacao'') = None
   \<and> extrair_valor libs_exemplo PadraoNaturezaOperacao (colapsar_espacos ''natureza de operacao'')
       = Inl IndexError
   \<and> extrair_dados_pdf libs_exemplo [0x4E] = None"
  by code_simp

section \<open>Properties of the processing order of a bundle\<close>

lemma separar_arquivos_filter:
  "separar_arquivos file_list (cab, its, outros) =
     (cab @ filter nome_de_cabecalho (filter (\<lambda>n. \<not> py_endswith n ''/'') file_list),
      its @ filter (\<lambda>n. \<not> nome_de_cabecalho n \<and> nome_de_itens n) (filter (\<lambda>n. \<not> py_endswith n ''/'') file_list),
      outros @ filter (\<lambda>n. \<not> nome_de_cabecalho n \<and> \<not> nome_de_itens n) (filter (\<lambda>n. \<not> py_endswith n ''/'') file_list))"
  by (induction file_list arbitrary: cab its outros) auto

lemma processar_entradas_ordem:
  "snd (processar_entradas processar avisar names (st, ordem)) =
     ordem @ filter tipo_suportado (filter (\<lambda>n. \<not> py_endswith n ''/'') names)"
  by (induction names arbitrary: st ordem) auto

lemma arquivos_ordenados_sem_diretorios:
  "filter (\<lambda>n. \<not> py_endswith n ''/'') (arquivos_ordenados file_list) = arquivos_ordenados file_list"
  by (simp add: arquivos_ordenados_def separar_arquivos_filter cong: conj_cong)

text \<open>
  C3 (as amended). Whatever the order of the entries in the bundle, the entries are handled
  in this order: first those whose names contain "cabecalho" or "header", then those whose
  names contain none of the four keywords, last those whose names contain "itens" or
  "items" and neither "cabecalho" nor "header"; each group keeps the order of the bundle,
  directory entries are left out, and the entries handed to the extractors are the ones of
  a supported type, in that order. A bundle \<open>[items.csv, other.pdf, header.csv]\<close> is
  processed as \<open>[header.csv, other.pdf, items.csv]\<close>.
\<close>

theorem arquivos_ordenados_ordem:
  "arquivos_ordenados file_list =
     filter nome_de_cabecalho (filter (\<lambda>n. \<not> py_endswith n ''/'') file_list)
     @ filter (\<lambda>n. \<not> nome_de_cabecalho n \<and> \<not> nome_de_itens n) (filter (\<lambda>n. \<not> py_endswith n ''/'') file_list)
     @ filter (\<lambda>n. \<not> nome_de_cabecalho n \<and> nome_de_itens n) (filter (\<lambda>n. \<not> py_endswith n ''/'') file_list)
   \<and> snd (processar_zip_upload processar avisar file_list st) =
       filter tipo_suportado (arquivos_ordenados file_list)
   \<and> arquivos_ordenados [''items.csv'', ''other.pdf'', ''header.csv'']
       = [''header.csv'', ''other.pdf'', ''items.csv'']
   \<and> snd (processar_zip_upload processar avisar [''items.csv'', ''other.pdf'', ''header.csv''] st)
       = [''header.csv'', ''other.pdf'', ''items.csv'']"
proof (intro conjI)
  show "arquivos_ordenados file_list =
     filter nome_de_cabecalho (filter (\<lambda>n. \<not> py_endswith n ''/'') file_list)
     @ filter (\<lambda>n. \<not> nome_de_cabecalho n \<and> \<not> nome_de_itens n) (filter (\<lambda>n. \<not> py_endswith n ''/'') file_list)
     @ filter (\<lambda>n. \<not> nome_de_cabecalho n \<and> nome_de_itens n) (filter (\<lambda>n. \<not> py_endswith n ''/'') file_list)"
    by (simp add: arquivos_ordenados_def separar_arquivos_filter)
  show ord: "\<And>fl. snd (processar_zip_upload processar avisar fl st) =
       filter tipo_suportado (arquivos_ordenados fl)"
    by (simp add: processar_zip_upload_def processar_entradas_ordem arquivos_ordenados_sem_diretorios)
  show ex: "arquivos_ordenados [''items.csv'', ''other.pdf'', ''header.csv'']
       = [''header.csv'', ''other.pdf'', ''items.csv'']"
    by code_simp
  have "filter tipo_suportado [''header.csv'', ''other.pdf'', ''items.csv''] = [''header.csv'', ''other.pdf'', ''items.csv'']"
    by code_simp
  then show "snd (processar_zip_upload processar avisar [''items.csv'', ''other.pdf'', ''header.csv''] st)
       = [''header.csv'', ''other.pdf'', ''items.csv'']"
    by (simp only: ord ex)
qed

text \<open>
  C3 as stated fails for a name with keywords of both kinds: \<open>header_items.csv\<close> contains
  "items", is classified as a header file by the first test and is processed before
  \<open>other.pdf\<close>, not last.
\<close>

theorem arquivos_ordenados_counterexample:
  "nome_de_itens ''header_items.csv''
   \<and> arquivos_ordenados [''header_items.csv'', ''other.pdf''] = [''header_items.csv'', ''other.pdf'']"
  by code_simp

section \<open>Properties of the items file\<close>

lemma processar_csv_itens_sem_notas:
  assumes "contar_notas db = Some 0"
  shows "fst (processar_csv_itens libs db df filename) = Some []
    \<and> snd (snd (processar_csv_itens libs db df filename)) = db"
  using assms by (simp add: processar_csv_itens_def Let_def)

text \<open>
  C2 (as amended). For a file in the items role (its name contains "itens" or "items" and
  neither "cabecalho" nor "header") and a database that holds no invoice, the file is
  refused before any row is looked at: the database is left as it was, so no line item is
  persisted, no invoice is returned, and an error message is shown, whatever the rows
  contain. The result is the empty list when the file could be read as a table with at
  least one row, and \<open>None\<close> when it could not be read or has no rows. The handler of the
  items role has the same guard once more and returns the empty list without touching the
  database.
\<close>

theorem itens_sem_notas_rejeitado:
  assumes "\<not> nome_de_cabecalho filename" and "nome_de_itens filename"
    and "contar_notas db = Some 0"
  shows "processar_csv_upload libs db file_content filename =
      (case tentar_delimitadores libs
              (case utf8_decode file_content of Some t \<Rightarrow> t | None \<Rightarrow> map unat file_content)
              [CHR '';'', CHR '','', CHR 0x09, CHR ''|''] None of
         None \<Rightarrow> (None, [ErroCSVNaoProcessavel filename], db)
       | Some df \<Rightarrow>
           if df_empty df then (None, [ErroCSVNaoProcessavel filename], db)
           else (Some [], [ErroBloqueado filename, ErroMotivoSemNotas, ErroSolucaoCabecalhoPrimeiro], db))
    \<and> snd (snd (processar_csv_upload libs db file_content filename)) = db
    \<and> fst (processar_csv_upload libs db file_content filename) \<in> {None, Some []}
    \<and> list_ex eh_erro (fst (snd (processar_csv_upload libs db file_content filename)))
    \<and> fst (processar_csv_itens libs db df0 filename) = Some []
    \<and> snd (snd (processar_csv_itens libs db df0 filename)) = db"
proof -
  have role: "\<not> (contem ''cabecalho'' (py_lower filename) \<or> contem ''header'' (py_lower filename))"
    "contem ''itens'' (py_lower filename) \<or> contem ''items'' (py_lower filename)"
    using assms(1,2) by (simp_all add: nome_de_cabecalho_def nome_de_itens_def Let_def)
  have eq: "processar_csv_upload libs db file_content filename =
      (case tentar_delimitadores libs
              (case utf8_decode file_content of Some t \<Rightarrow> t | None \<Rightarrow> map unat file_content)
              [CHR '';'', CHR '','', CHR 0x09, CHR ''|''] None of
         None \<Rightarrow> (None, [ErroCSVNaoProcessavel filename], db)
       | Some df \<Rightarrow>
           if df_empty df then (None, [ErroCSVNaoProcessavel filename], db)
           else (Some [], [ErroBloqueado filename, ErroMotivoSemNotas, ErroSolucaoCabecalhoPrimeiro], db))"
    unfolding processar_csv_upload_def Let_def
    using role assms(3) by (simp split: option.splits)
  show ?thesis
    using processar_csv_itens_sem_notas[OF assms(3)]
    by (simp add: eq eh_erro_def split: option.splits)
qed

text \<open>The theorem at an items file with one row and the empty database.\<close>

theorem itens_sem_notas_rejeitado_witness:
  "processar_csv_upload libs_csv_exemplo banco_vazio [0x41] ''itens.csv'' =
     (Some [], [ErroBloqueado ''itens.csv'', ErroMotivoSemNotas, ErroSolucaoCabecalhoPrimeiro],
      banco_vazio)"
proof -
  have h1: "\<not> nome_de_cabecalho ''itens.csv''" by code_simp
  have h2: "nome_de_itens ''itens.csv''" by code_simp
  have h3: "contar_notas banco_vazio = Some 0" by (simp add: contar_notas_def banco_vazio_def)
  have t: "tentar_delimitadores libs_csv_exemplo
             (case utf8_decode [0x41] of Some t \<Rightarrow> t | None \<Rightarrow> map unat [0x41 :: byte])
             [CHR '';'', CHR '','', CHR 0x09, CHR ''|''] None
           = Some \<lparr> colunas = [''numero_nf'', ''codigo'', ''descricao''],
                    linhas = [[PInt 1, PStr ''A1'', PStr ''Parafuso'']] \<rparr>"
    by code_simp
  from itens_sem_notas_rejeitado[OF h1 h2 h3, of libs_csv_exemplo "[0x41]"]
  have "processar_csv_upload libs_csv_exemplo banco_vazio [0x41] ''itens.csv'' =
      (case tentar_delimitadores libs_csv_exemplo
              (case utf8_decode [0x41] of Some t \<Rightarrow> t | None \<Rightarrow> map unat [0x41 :: byte])
              [CHR '';'', CHR '','', CHR 0x09, CHR ''|''] None of
         None \<Rightarrow> (None, [ErroCSVNaoProcessavel ''itens.csv''], banco_vazio)
       | Some df \<Rightarrow>
           if df_empty df then (None, [ErroCSVNaoProcessavel ''itens.csv''], banco_vazio)
           else (Some [], [ErroBloqueado ''itens.csv'', ErroMotivoSemNotas,
                           ErroSolucaoCabecalhoPrimeiro], banco_vazio))"
    by (rule conjunct1)
  then show ?thesis unfolding t by (simp add: df_empty_def)
qed

text \<open>
  C2 as stated fails for an items file that has its header line only: with no invoice in
  the database the result is \<open>None\<close>, not the empty list, because the test for an empty table
  comes before the role of the file is looked at.
\<close>

theorem itens_tabela_vazia_counterexample:
  "nome_de_itens ''itens.csv'' \<and> \<not> nome_de_cabecalho ''itens.csv''
   \<and> contar_notas banco_vazio = Some 0
   \<and> fst (processar_csv_upload libs_csv_exemplo banco_vazio so_cabecalho_csv ''itens.csv'') = None"
  by code_simp

end
